theory Spec2Isabelle
  imports Main "HOL-Library.Monad_Syntax"
begin

section \<open>fits2db: a shallow embedding of fits2db.c\<close>

text \<open>
  The C globals that hold options and column descriptors are the record \<open>globals\<close>; the
  output side (the buffer between \<open>obuf\<close> and \<open>optr\<close>, \<open>olen\<close>, the serial counter, the
  output stream) is the record \<open>ostate\<close>, which the value encoders thread. A C \<open>char\<close> is a
  \<open>char\<close>; a buffer is a \<open>char list\<close>. The platform is LP64 with a signed \<open>char\<close>
  (\<open>sizeof (short) = 2\<close>, \<open>sizeof (int) = 4\<close>, \<open>sizeof (long) = 8\<close>); its byte order is the
  field \<open>is_swapped\<close>, what the C function of that name returns. Diagnostics on stderr
  are left out. A function returns \<open>None\<close> where the C reads through a pointer it never
  set, writes more bytes than the buffer holds between \<open>obuf\<close> and \<open>optr\<close>, or where a loop
  is out of fuel. A \<open>%s\<close> conversion of a null pointer gives \<open>(null)\<close>, as glibc does.
\<close>

subsection \<open>Bytes and the C library\<close>

type_synonym byte = char

definition NUL :: byte where
  "NUL = CHR 0x00"

definition BACKSLASH :: byte where
  "BACKSLASH = CHR 0x5C"

definition NL :: byte where
  "NL = CHR 0x0A"

definition TAB :: byte where
  "TAB = CHR 0x09"

text \<open>The C string that starts a zeroed buffer filled with \<open>b\<close>: \<open>strlen\<close> stops at the first NUL.\<close>

definition cstr :: "byte list \<Rightarrow> string" where
  "cstr b = takeWhile (\<lambda>c. c \<noteq> NUL) b"

fun dec_digits :: "int \<Rightarrow> string" where
  "dec_digits n = (if n < 10 then [char_of (48 + n)]
                   else dec_digits (n div 10) @ [char_of (48 + n mod 10)])"

text \<open>\<open>sprintf (buf, "%d", i)\<close>.\<close>

definition sprintf_d :: "int \<Rightarrow> string" where
  "sprintf_d i = (if i < 0 then CHR ''-'' # dec_digits (- i) else dec_digits i)"

text \<open>A field width (\<open>%*d\<close>, \<open>%-*s\<close>): pad with spaces on the left, on the right when
  \<open>left\<close> is set or the width is negative.\<close>

definition pad_width :: "bool \<Rightarrow> int \<Rightarrow> string \<Rightarrow> string" where
  "pad_width left w s =
     (let n = nat \<bar>w\<bar> - length s in
      if left \<or> w < 0 then s @ replicate n CHR '' '' else replicate n CHR '' '' @ s)"

definition sprintf_wd :: "int \<Rightarrow> int \<Rightarrow> string" where
  "sprintf_wd w i = pad_width False w (sprintf_d i)"

text \<open>An object of \<open>w\<close> bits holding the unsigned value \<open>n\<close>, read as two's complement.\<close>

definition as_signed :: "nat \<Rightarrow> int \<Rightarrow> int" where
  "as_signed w n = (if n mod 2 ^ w < 2 ^ (w - 1) then n mod 2 ^ w else n mod 2 ^ w - 2 ^ w)"

text \<open>The unsigned value of bytes in big-endian order, and the \<open>k\<close> big-endian bytes of
  a value.\<close>

definition be_int :: "byte list \<Rightarrow> int" where
  "be_int bs = foldl (\<lambda>a c. a * 256 + of_char c) 0 bs"

fun be_bytes :: "nat \<Rightarrow> int \<Rightarrow> byte list" where
  "be_bytes 0 n = []"
| "be_bytes (Suc k) n = be_bytes k (n div 256) @ [char_of n]"

text \<open>\<open>memcpy\<close> between an integer object of \<open>k\<close> bytes and memory: the host's byte order.\<close>

definition load_native :: "bool \<Rightarrow> byte list \<Rightarrow> int" where
  "load_native swapped bs = (if swapped then be_int (rev bs) else be_int bs)"

definition store_native :: "bool \<Rightarrow> nat \<Rightarrow> int \<Rightarrow> byte list" where
  "store_native swapped k n = (if swapped then rev (be_bytes k n) else be_bytes k n)"

text \<open>\<open>htons\<close> and \<open>htonl\<close>: the value whose native bytes are the big-endian bytes of \<open>n\<close>.\<close>

definition hton :: "bool \<Rightarrow> nat \<Rightarrow> int \<Rightarrow> int" where
  "hton swapped k n = load_native swapped (be_bytes k n)"

fun tolower :: "byte \<Rightarrow> byte" where
  "tolower c = (let n = (of_char c :: int) in if 65 \<le> n \<and> n \<le> 90 then char_of (n + 32) else c)"

definition strcasecmp_eq :: "string \<Rightarrow> string \<Rightarrow> bool" where
  "strcasecmp_eq a b = (map tolower a = map tolower b)"

subsection \<open>Byte swapping and stripping\<close>

text \<open>\<open>bswap2\<close>, \<open>bswap4\<close>, \<open>bswap8\<close> are always called in place (\<open>a = b\<close>): the bytes left
  over after the last whole group stay where they are.\<close>

fun bswap2 :: "byte list \<Rightarrow> byte list" where
  "bswap2 (a # b # r) = b # a # bswap2 r"
| "bswap2 r = r"

fun bswap4 :: "byte list \<Rightarrow> byte list" where
  "bswap4 (a # b # c # d # r) = d # c # b # a # bswap4 r"
| "bswap4 r = r"

fun bswap8 :: "byte list \<Rightarrow> byte list" where
  "bswap8 (a # b # c # d # e # f # g # h # r) = h # g # f # e # d # c # b # a # bswap8 r"
| "bswap8 r = r"

text \<open>Swap the first \<open>n\<close> bytes at \<open>dp\<close> in place.\<close>

definition swap_at :: "(byte list \<Rightarrow> byte list) \<Rightarrow> int \<Rightarrow> byte list \<Rightarrow> byte list" where
  "swap_at sw n dp = sw (take (nat n) dp) @ drop (nat n) dp"

text \<open>\<open>sstrip\<close> on a non-empty C string: the trailing loop stops at the first byte
  (\<open>ip > s\<close>), which the leading loop then skips when it is a space.\<close>

definition sstrip :: "string \<Rightarrow> string" where
  "sstrip s = (if s = [] then s
               else dropWhile (\<lambda>c. c = CHR '' '')
                      (hd s # rev (dropWhile (\<lambda>c. c = CHR '' '') (rev (tl s)))))"

subsection \<open>The output stream\<close>

text \<open>\<open>ofd\<close> is a stdio stream on a file or a pipe: \<open>fprintf\<close> fills its buffer,
  \<open>fflush\<close> hands the buffer to the descriptor, \<open>write (fileno (ofd), ...)\<close> goes to the
  descriptor at once.\<close>

record FILE =
  pending :: string
  written :: string

definition fprintf :: "string \<Rightarrow> FILE \<Rightarrow> FILE" where
  "fprintf s f = f\<lparr>pending := pending f @ s\<rparr>"

definition fflush :: "FILE \<Rightarrow> FILE" where
  "fflush f = f\<lparr>pending := [], written := written f @ pending f\<rparr>"

definition fd_write :: "string \<Rightarrow> FILE \<Rightarrow> FILE" where
  "fd_write s f = f\<lparr>written := written f @ s\<rparr>"

text \<open>\<open>printf ("%s", p)\<close> of glibc prints \<open>(null)\<close> for a null pointer.\<close>

definition str_or_null :: "string option \<Rightarrow> string" where
  "str_or_null p = (case p of None \<Rightarrow> ''(null)'' | Some s \<Rightarrow> s)"

subsection \<open>Data model\<close>

datatype fmt = TAB_DELIMITED | TAB_IPAC | TAB_POSTGRES | TAB_MYSQL | TAB_SQLITE

text \<open>\<open>TAB_DBTYPE(t)\<close> is \<open>t > TAB_IPAC\<close>.\<close>

definition TAB_DBTYPE :: "fmt \<Rightarrow> bool" where
  "TAB_DBTYPE t = (t \<noteq> TAB_DELIMITED \<and> t \<noteq> TAB_IPAC)"

text \<open>The column type codes of fitsio.h that the switches name; \<open>TOTHER n\<close> is any other
  code (\<open>TOTHER 0\<close> is what \<open>memset\<close> leaves).\<close>

datatype typecode =
  TBIT | TBYTE | TSBYTE | TLOGICAL | TSTRING | TUSHORT | TSHORT | TUINT | TINT | TINT32BIT
  | TLONGLONG | TFLOAT | TDOUBLE | TCOMPLEX | TDBLCOMPLEX | TOTHER int

record Col =
  colnum :: int
  dispwidth :: int
  type :: typecode
  nelem :: int
  ndim :: int
  nrows :: int
  ncols :: int
  width :: int
  repeat :: int
  colname :: string
  coltype :: string
  colunits :: string

definition Col_zero :: Col where
  "Col_zero = \<lparr>colnum = 0, dispwidth = 0, type = TOTHER 0, nelem = 0, ndim = 0, nrows = 0,
     ncols = 0, width = 0, repeat = 0, colname = [], coltype = [], colunits = []\<rparr>"

text \<open>The option and column globals. \<open>bundle_n\<close> is the C \<open>bundle\<close>, \<open>concat_n\<close> the C
  \<open>concat\<close>, and \<open>sql_type\<close> the pointer \<open>static char *type\<close> of \<open>dl_SQLType\<close>, which
  lives as long as the globals (\<open>None\<close> is the null pointer it starts as). The last six
  fields are the platform: the result of \<open>is_swapped ()\<close>, the
  text \<open>sprintf\<close> gives for the float or double with a given bit pattern under \<open>%f\<close>
  and \<open>%.16f\<close>, and the bit pattern of the float \<open>dl_printRandom\<close> computes from the
  k-th call of \<open>rand ()\<close>.\<close>

record globals =
  inColumns :: "nat \<Rightarrow> Col"
  outColumns :: "nat \<Rightarrow> Col"
  numInCols :: int
  numOutCols :: int
  sql_type :: "string option"
  tablename :: "string option"
  sidname :: "string option"
  ridname :: "string option"
  dbname :: "string option"
  addname :: "string option"
  delimiter :: byte
  quote_char :: byte
  omode :: string
  format :: fmt
  mach_swap :: int
  do_binary :: int
  do_quote :: int
  do_escape :: int
  do_strip :: int
  do_drop :: int
  do_create :: int
  do_truncate :: int
  do_load :: int
  do_oids :: int
  bundle_n :: int
  noop :: int
  concat_n :: int
  explode :: int
  header :: int
  single :: int
  chunk_size :: int
  extnum :: int
  extname :: "string option"
  rows :: "string option"
  debug :: int
  is_swapped :: int
  sprintf_f_float :: "int \<Rightarrow> string"
  sprintf_f_double :: "int \<Rightarrow> string"
  sprintf_16f_double :: "int \<Rightarrow> string"
  rand_rval :: "nat \<Rightarrow> int"
  stack_cols :: "nat \<Rightarrow> Col"

text \<open>The output side: \<open>obuf\<close> holds the bytes between the C \<open>obuf\<close> and \<open>optr\<close>;
  \<open>ofd_stdout\<close> says that \<open>ofd\<close> is \<open>stdout\<close>, so that \<open>printf\<close> lands in its
  buffer; \<open>reads\<close> lists the \<open>(firstchar, nchars)\<close> of the calls of
  \<open>fits_read_tblbytes\<close> so far.\<close>

record ostate =
  obuf :: string
  olen :: int
  serial_number :: int
  rand_calls :: nat
  ofd :: FILE
  ofd_stdout :: bool
  reads :: "(int \<times> int) list"

definition swapped :: "globals \<Rightarrow> bool" where
  "swapped g = (is_swapped g \<noteq> 0)"

text \<open>\<open>memcpy (optr, s, len); optr += len; olen += n\<close>, and the two halves alone.\<close>

definition emit :: "string \<Rightarrow> int \<Rightarrow> ostate \<Rightarrow> ostate" where
  "emit s n os = os\<lparr>obuf := obuf os @ s, olen := olen os + n\<rparr>"

definition putc :: "byte \<Rightarrow> ostate \<Rightarrow> ostate" where
  "putc c os = emit [c] 1 os"

definition puts :: "string \<Rightarrow> ostate \<Rightarrow> ostate" where
  "puts s os = emit s (int (length s)) os"

definition printf_stdout :: "string \<Rightarrow> ostate \<Rightarrow> ostate" where
  "printf_stdout s os = (if ofd_stdout os then os\<lparr>ofd := fprintf s (ofd os)\<rparr> else os)"

text \<open>\<open>for (i = lo; i <= hi; i++)\<close> with a body that leaves \<open>i\<close> and \<open>hi\<close> alone.\<close>

definition for_loop :: "int \<Rightarrow> int \<Rightarrow> (int \<Rightarrow> 's \<Rightarrow> 's) \<Rightarrow> 's \<Rightarrow> 's" where
  "for_loop lo hi body s = foldl (\<lambda>s i. body i s) s [lo..hi]"

definition for_loop_opt :: "int \<Rightarrow> int \<Rightarrow> (int \<Rightarrow> 's \<Rightarrow> 's option) \<Rightarrow> 's \<Rightarrow> 's option" where
  "for_loop_opt lo hi body s = foldl (\<lambda>s i. Option.bind s (body i)) (Some s) [lo..hi]"

text \<open>The 4-byte length word of a binary field: \<open>sz_val = htonl (n); memcpy (optr, &sz_val,
  sz_int)\<close>.\<close>

definition u32 :: "int \<Rightarrow> int" where
  "u32 n = n mod 2 ^ 32"

definition sz_val_bytes :: "globals \<Rightarrow> int \<Rightarrow> string" where
  "sz_val_bytes g n = store_native (swapped g) 4 (hton (swapped g) 4 (u32 n))"

subsection \<open>The value encoders\<close>

text \<open>An encoder takes the bytes from \<open>dp\<close> on and returns them from the advanced \<open>dp\<close>
  on (a byte swap in place shows in them). A read past the end of the chunk is a read of
  fewer bytes.\<close>

definition dl_escapeCSV :: "globals \<Rightarrow> string \<Rightarrow> string" where
  "dl_escapeCSV g s =
     quote_char g # concat (map (\<lambda>c. if c = quote_char g then [c, c] else [c]) s) @ [quote_char g]"

definition dl_quote :: "globals \<Rightarrow> string \<Rightarrow> string" where
  "dl_quote g s = quote_char g # s @ [quote_char g]"

definition dl_printString :: "globals \<Rightarrow> byte list \<Rightarrow> Col \<Rightarrow> ostate \<Rightarrow> byte list \<times> ostate" where
  "dl_printString g dp col os =
     (let buf = cstr (take (nat (repeat col)) dp) in
      (drop (nat (repeat col)) dp,
       if do_binary g \<noteq> 0 then
         (let len = int (length buf) in emit (sz_val_bytes g len @ buf) (4 + len) os)
       else if do_escape g \<noteq> 0 then
         puts (cstr (dl_escapeCSV g (if do_strip g \<noteq> 0 then sstrip buf else buf))) os
       else if do_quote g \<noteq> 0 then
         puts (cstr (dl_quote g (if do_strip g \<noteq> 0 then sstrip buf else buf))) os
       else puts (sstrip buf) os))"

text \<open>The double loop over the elements of a column that every encoder repeats: binary
  with \<open>explode\<close>, and text (a delimiter after each element but the last of its row, and
  after each row but the last).\<close>

definition bin_elems ::
  "Col \<Rightarrow> (byte list \<times> ostate \<Rightarrow> byte list \<times> ostate) \<Rightarrow> byte list \<times> ostate \<Rightarrow> byte list \<times> ostate" where
  "bin_elems col elem st =
     for_loop 1 (nrows col) (\<lambda>i. for_loop 1 (ncols col) (\<lambda>j. elem)) st"

definition text_elems ::
  "globals \<Rightarrow> Col \<Rightarrow> (byte list \<times> ostate \<Rightarrow> byte list \<times> ostate)
     \<Rightarrow> byte list \<times> ostate \<Rightarrow> byte list \<times> ostate" where
  "text_elems g col elem st =
     for_loop 1 (nrows col)
       (\<lambda>i st.
          let st = for_loop 1 (ncols col)
                     (\<lambda>j st.
                        let st = elem st in
                        if repeat col > 1 \<and> j < ncols col
                        then (fst st, putc (delimiter g) (snd st)) else st) st
          in if repeat col > 1 \<and> i < nrows col
             then (fst st, putc (delimiter g) (snd st)) else st) st"

definition is_t :: "byte \<Rightarrow> bool" where
  "is_t ch = (tolower ch = CHR ''t'')"

text \<open>With \<open>explode\<close> off the binary branch of \<open>dl_printLogical\<close> adds \<open>sz_short + len\<close>
  to \<open>olen\<close> for each element and \<open>sz_int + sz_val\<close> after the loop, \<open>sz_val\<close> being the
  length word already in network order.\<close>

definition dl_printLogical :: "globals \<Rightarrow> byte list \<Rightarrow> Col \<Rightarrow> ostate \<Rightarrow> byte list \<times> ostate" where
  "dl_printLogical g dp col os =
     (let lval_bytes = (\<lambda>ch. store_native (swapped g) 2 (if is_t ch then hton (swapped g) 2 1 else 0)) in
      if do_binary g \<noteq> 0 then
        (if explode g \<noteq> 0 then
           bin_elems col
             (\<lambda>(dp, os). (drop 1 dp, emit (sz_val_bytes g 2 @ concat (map lval_bytes (take 1 dp))) (4 + 2) os))
             (dp, os)
         else
           (let len = repeat col * 2;
                os = emit (sz_val_bytes g (repeat col * 2)) 0 os;
                (dp, os) = bin_elems col
                  (\<lambda>(dp, os). (drop 1 dp, emit (concat (map lval_bytes (take 1 dp))) (2 + len) os))
                  (dp, os)
            in (dp, emit [] (4 + hton (swapped g) 4 (u32 (repeat col * 2))) os)))
      else
        text_elems g col
          (\<lambda>(dp, os).
             (drop 1 dp,
              puts (concat (map (\<lambda>ch. if format g = TAB_IPAC
                                       then sprintf_d (if is_t ch then 1 else 0)
                                       else sprintf_wd (dispwidth col) (if is_t ch then 1 else 0))
                                (take 1 dp))) os))
          (dp, os))"

text \<open>The branches the integer and floating-point encoders share. Binary: with
  \<open>explode\<close> each element is a length word and \<open>sz\<close> bytes; without, one length word and
  \<open>repeat * sz\<close> bytes. Text: each element is \<open>sz\<close> bytes shown by \<open>show\<close>.\<close>

definition bin_fixed :: "globals \<Rightarrow> int \<Rightarrow> byte list \<Rightarrow> Col \<Rightarrow> ostate \<Rightarrow> byte list \<times> ostate" where
  "bin_fixed g sz dp col os =
     (if explode g \<noteq> 0 then
        bin_elems col
          (\<lambda>(dp, os). (drop (nat sz) dp, emit (sz_val_bytes g sz @ take (nat sz) dp) (4 + sz) os))
          (dp, os)
      else
        (let len = repeat col * sz in
         (drop (nat (repeat col * sz)) dp,
          emit (sz_val_bytes g (repeat col * sz) @ take (nat (sz * repeat col)) dp) (4 + len) os)))"

definition text_fixed ::
  "globals \<Rightarrow> int \<Rightarrow> (byte list \<Rightarrow> string) \<Rightarrow> byte list \<Rightarrow> Col \<Rightarrow> ostate \<Rightarrow> byte list \<times> ostate" where
  "text_fixed g sz show dp col os =
     text_elems g col (\<lambda>(dp, os). (drop (nat sz) dp, puts (show (take (nat sz) dp)) os)) (dp, os)"

definition dl_printByte :: "globals \<Rightarrow> byte list \<Rightarrow> Col \<Rightarrow> ostate \<Rightarrow> byte list \<times> ostate" where
  "dl_printByte g dp col os =
     (let sval_bytes = (\<lambda>b. store_native (swapped g) 2 (hton (swapped g) 2 (of_char b))) in
      if do_binary g \<noteq> 0 then
        (if explode g \<noteq> 0 then
           bin_elems col
             (\<lambda>(dp, os). (drop 1 dp, emit (sz_val_bytes g 2 @ concat (map sval_bytes (take 1 dp))) (4 + 2) os))
             (dp, os)
         else
           bin_elems col
             (\<lambda>(dp, os). (drop 1 dp, emit (concat (map sval_bytes (take 1 dp))) 2 os))
             (dp, emit (sz_val_bytes g (repeat col * 2)) 4 os))
      else
        text_fixed g 1
          (\<lambda>bs. let v = (if type col = TBYTE then be_int bs else as_signed 8 (be_int bs)) in
                if format g = TAB_IPAC then sprintf_wd (dispwidth col) v else sprintf_d v)
          dp col os)"

definition dl_printShort :: "globals \<Rightarrow> byte list \<Rightarrow> Col \<Rightarrow> ostate \<Rightarrow> byte list \<times> ostate" where
  "dl_printShort g dp col os =
     (let dp = (if mach_swap g \<noteq> 0 \<and> do_binary g = 0 then swap_at bswap2 (2 * repeat col) dp else dp) in
      if do_binary g \<noteq> 0 then bin_fixed g 2 dp col os
      else
        text_fixed g 2
          (\<lambda>bs. let v = (if type col = TUSHORT then load_native (swapped g) bs
                          else as_signed 16 (load_native (swapped g) bs)) in
                if format g = TAB_IPAC then sprintf_wd (dispwidth col) v else sprintf_d v)
          dp col os)"

text \<open>\<open>sprintf ("%d", uival)\<close> shows the unsigned int as an int.\<close>

definition dl_printInt :: "globals \<Rightarrow> byte list \<Rightarrow> Col \<Rightarrow> ostate \<Rightarrow> byte list \<times> ostate" where
  "dl_printInt g dp col os =
     (let dp = (if mach_swap g \<noteq> 0 \<and> do_binary g \<noteq> 0 then swap_at bswap4 (4 * repeat col) dp else dp) in
      if do_binary g \<noteq> 0 then bin_fixed g 4 dp col os
      else
        text_fixed g 4
          (\<lambda>bs. let v = as_signed 32 (load_native (swapped g) bs) in
                if format g = TAB_IPAC then sprintf_wd (dispwidth col) v else sprintf_d v)
          dp col os)"

definition dl_printLong :: "globals \<Rightarrow> byte list \<Rightarrow> Col \<Rightarrow> ostate \<Rightarrow> byte list \<times> ostate" where
  "dl_printLong g dp col os =
     (let dp = (if mach_swap g \<noteq> 0 \<and> do_binary g \<noteq> 0 then swap_at bswap8 (8 * repeat col) dp else dp) in
      if do_binary g \<noteq> 0 then bin_fixed g 8 dp col os
      else
        text_fixed g 8
          (\<lambda>bs. let v = as_signed 64 (load_native (swapped g) bs) in
                if format g = TAB_IPAC then sprintf_wd (dispwidth col) v else sprintf_d v)
          dp col os)"

text \<open>\<open>isnan\<close> and \<open>isinf\<close> on the bit pattern of an IEEE 754 number with \<open>e\<close> exponent
  bits and \<open>m\<close> fraction bits. \<open>isinf\<close> is glibc's: 1 at plus infinity, -1 at minus
  infinity, 0 elsewhere.\<close>

definition isnan :: "nat \<Rightarrow> nat \<Rightarrow> int \<Rightarrow> bool" where
  "isnan e m v = ((v div 2 ^ m) mod 2 ^ e = 2 ^ e - 1 \<and> v mod 2 ^ m \<noteq> 0)"

definition isinf :: "nat \<Rightarrow> nat \<Rightarrow> int \<Rightarrow> int" where
  "isinf e m v =
     (if (v div 2 ^ m) mod 2 ^ e = 2 ^ e - 1 \<and> v mod 2 ^ m = 0
      then (if (v div 2 ^ (e + m)) mod 2 = 1 then - 1 else 1) else 0)"

definition SQUOTE :: byte where
  "SQUOTE = CHR 0x27"

definition DQUOTE :: byte where
  "DQUOTE = CHR 0x22"

definition dl_printFloat :: "globals \<Rightarrow> byte list \<Rightarrow> Col \<Rightarrow> ostate \<Rightarrow> byte list \<times> ostate" where
  "dl_printFloat g dp col os =
     (let dp = (if mach_swap g \<noteq> 0 \<and> do_binary g \<noteq> 0 then swap_at bswap4 (4 * repeat col) dp else dp) in
      if do_binary g \<noteq> 0 then bin_fixed g 4 dp col os
      else
        text_fixed g 4
          (\<lambda>bs. let rval = load_native (swapped g) bs in
                if isnan 8 23 rval then
                  (if format g = TAB_SQLITE \<or> format g = TAB_MYSQL then SQUOTE # ''NaN'' @ [SQUOTE]
                   else if format g = TAB_POSTGRES then ''NaN''
                   else sprintf_f_float g rval)
                else
                  (let sign = isinf 8 23 rval in
                   if sign \<noteq> 0 then
                     (if format g = TAB_SQLITE \<or> format g = TAB_MYSQL then
                        (if sign \<noteq> 0 then SQUOTE # ''Infinity'' @ [SQUOTE]
                         else SQUOTE # ''-Infinity'' @ [SQUOTE])
                      else if format g = TAB_POSTGRES then
                        (if sign \<noteq> 0 then ''Infinity'' else ''-Infinity'')
                      else sprintf_f_float g rval)
                   else if format g = TAB_IPAC
                     then pad_width False (dispwidth col) (sprintf_f_float g rval)
                     else sprintf_f_float g rval))
          dp col os)"

definition dl_printDouble :: "globals \<Rightarrow> byte list \<Rightarrow> Col \<Rightarrow> ostate \<Rightarrow> byte list \<times> ostate" where
  "dl_printDouble g dp col os =
     (let dp = (if mach_swap g \<noteq> 0 \<and> do_binary g = 0 then swap_at bswap8 (8 * repeat col) dp else dp) in
      if do_binary g \<noteq> 0 then bin_fixed g 8 dp col os
      else
        text_fixed g 8
          (\<lambda>bs. let dval = load_native (swapped g) bs in
                if isnan 11 52 dval then
                  (if format g = TAB_SQLITE \<or> format g = TAB_MYSQL then SQUOTE # ''NaN'' @ [SQUOTE]
                   else if format g = TAB_POSTGRES then ''NaN''
                   else sprintf_16f_double g dval)
                else
                  (let sign = isinf 11 52 dval in
                   if sign \<noteq> 0 then
                     (if format g = TAB_SQLITE \<or> format g = TAB_MYSQL then
                        (if sign \<noteq> 0 then SQUOTE # ''Infinity'' @ [SQUOTE]
                         else SQUOTE # ''-Infinity'' @ [SQUOTE])
                      else if format g = TAB_POSTGRES then
                        (if sign \<noteq> 0 then ''Infinity'' else ''-Infinity'')
                      else sprintf_16f_double g dval)
                   else if format g = TAB_IPAC
                     then pad_width False (dispwidth col) (sprintf_f_double g dval)
                     else sprintf_16f_double g dval))
          dp col os)"

text \<open>\<open>ival = serial_number++\<close>; on a swapped host in binary mode \<open>bswap4\<close> runs on the
  bytes of \<open>ival\<close> before \<open>htonl\<close>.\<close>

definition dl_printSerial :: "globals \<Rightarrow> ostate \<Rightarrow> ostate" where
  "dl_printSerial g os =
     (let ival = u32 (serial_number os);
          os = os\<lparr>serial_number := as_signed 32 (serial_number os + 1)\<rparr>;
          ival = (if mach_swap g \<noteq> 0 \<and> do_binary g \<noteq> 0
                  then load_native (swapped g) (bswap4 (store_native (swapped g) 4 ival))
                  else ival)
      in if do_binary g \<noteq> 0 then
           emit (sz_val_bytes g 4 @ store_native (swapped g) 4 (hton (swapped g) 4 ival)) (2 * 4) os
         else puts (sprintf_d (as_signed 32 ival)) os)"

definition dl_printRandom :: "globals \<Rightarrow> ostate \<Rightarrow> ostate" where
  "dl_printRandom g os =
     (let rval = rand_rval g (rand_calls os);
          os = os\<lparr>rand_calls := Suc (rand_calls os)\<rparr>;
          mem = store_native (swapped g) 4 rval;
          mem = (if mach_swap g \<noteq> 0 \<and> do_binary g \<noteq> 0 then bswap4 mem else mem)
      in if do_binary g \<noteq> 0 then emit (sz_val_bytes g 4 @ mem) (4 + 4) os
         else puts (sprintf_f_float g rval) os)"

definition dl_printValue :: "globals \<Rightarrow> int \<Rightarrow> ostate \<Rightarrow> ostate" where
  "dl_printValue g v os =
     (let ival = u32 v in
      if do_binary g \<noteq> 0 then
        emit (sz_val_bytes g 4 @ store_native (swapped g) 4 (hton (swapped g) 4 ival)) (2 * 4) os
      else puts (sprintf_d (as_signed 32 ival)) os)"

text \<open>\<open>dl_printCol\<close>: the array brackets, the row brackets, the encoder of the column's
  type, and after the last column of a row (\<open>end_char\<close> is a newline) the synthetic
  columns.\<close>

definition is_array :: "globals \<Rightarrow> Col \<Rightarrow> bool" where
  "is_array g col = (explode g = 0 \<and> do_binary g = 0 \<and> type col \<noteq> TSTRING \<and> repeat col > 1)"

definition synthetic :: "globals \<Rightarrow> (globals \<Rightarrow> ostate \<Rightarrow> ostate) \<Rightarrow> string \<Rightarrow> ostate \<Rightarrow> ostate" where
  "synthetic g print msg os =
     (if format g = TAB_POSTGRES then
        print g (if do_binary g = 0 then putc (delimiter g) os else os)
      else if format g = TAB_DELIMITED \<or> format g = TAB_IPAC then
        print g (putc (delimiter g) os)
      else printf_stdout msg os)"

definition dl_printCol :: "globals \<Rightarrow> byte list \<Rightarrow> Col \<Rightarrow> byte \<Rightarrow> ostate \<Rightarrow> byte list \<times> ostate" where
  "dl_printCol g dp col end_char os =
     (let os = (if is_array g col then
                  (if format g = TAB_DELIMITED then putc (CHR ''('') (putc (quote_char g) os)
                   else putc (CHR ''{'') os)
                else os);
          os = (if format g = TAB_IPAC \<and> colnum col = 1 then putc (CHR ''|'') os else os);
          os = (if (format g = TAB_MYSQL \<or> format g = TAB_SQLITE) \<and> colnum col = 1
                then putc (CHR ''('') os else os);
          (dp, os) =
            (case type col of
               TSTRING \<Rightarrow> dl_printString g dp col os
             | TLOGICAL \<Rightarrow> dl_printLogical g dp col os
             | TBYTE \<Rightarrow> dl_printByte g dp col os
             | TSBYTE \<Rightarrow> dl_printByte g dp col os
             | TSHORT \<Rightarrow> dl_printShort g dp col os
             | TUSHORT \<Rightarrow> dl_printShort g dp col os
             | TINT \<Rightarrow> dl_printInt g dp col os
             | TUINT \<Rightarrow> dl_printInt g dp col os
             | TINT32BIT \<Rightarrow> dl_printInt g dp col os
             | TLONGLONG \<Rightarrow> dl_printLong g dp col os
             | TFLOAT \<Rightarrow> dl_printFloat g dp col os
             | TDOUBLE \<Rightarrow> dl_printDouble g dp col os
             | _ \<Rightarrow> (dp, os));
          os = (if is_array g col then
                  (if format g = TAB_DELIMITED then putc (CHR '')'') (putc (quote_char g) os)
                   else putc (CHR ''}'') os)
                else os);
          os = (if end_char = NL then
                  (let os = (if format g = TAB_IPAC then putc (CHR ''|'') os else os) in
                   if format g = TAB_MYSQL \<or> format g = TAB_SQLITE then putc (CHR '')'') os else os)
                else os);
          os = (if end_char = NL then
                  (let os = (if addname g \<noteq> None
                             then dl_printValue g 1 (if do_binary g = 0 then putc (delimiter g) os else os)
                             else os);
                       os = (if sidname g \<noteq> None
                             then synthetic g dl_printSerial ''Unsupported serial format\<newline>'' os
                             else os)
                   in if ridname g \<noteq> None
                      then synthetic g dl_printRandom ''Unsupported random format\<newline>'' os
                      else os)
                else os)
      in (dp, if do_binary g = 0 \<and> end_char \<noteq> NL then putc end_char os else os))"

subsection \<open>Column type labels\<close>

text \<open>The switch of \<open>dl_SQLType\<close>: the static pointer \<open>type\<close> after it. The types the switch
  does not name, or names without an assignment, leave the pointer at the label of the
  call before.\<close>

definition sql_label :: "Col \<Rightarrow> string option \<Rightarrow> string option" where
  "sql_label col ty =
     (case type col of
        TSTRING \<Rightarrow> Some (if repeat col > 1 then ''text'' else ''char'')
      | TLOGICAL \<Rightarrow> Some ''smallint''
      | TBYTE \<Rightarrow> Some ''smallint''
      | TSBYTE \<Rightarrow> Some ''smallint''
      | TSHORT \<Rightarrow> Some ''smallint''
      | TUSHORT \<Rightarrow> Some ''smallint''
      | TINT \<Rightarrow> Some ''integer''
      | TUINT \<Rightarrow> Some ''integer''
      | TINT32BIT \<Rightarrow> Some ''integer''
      | TLONGLONG \<Rightarrow> Some ''bigint''
      | TFLOAT \<Rightarrow> Some ''real''
      | TDOUBLE \<Rightarrow> Some ''double precision''
      | _ \<Rightarrow> ty)"

text \<open>\<open>dl_SQLType\<close>: the label it returns and the globals with the static pointer as the
  call leaves it. \<open>sprintf (tbuf, "%s[%ld]", type, col->repeat)\<close> takes a null \<open>type\<close>;
  \<open>strcpy (tbuf, type)\<close> reads through it: \<open>None\<close>. \<open>dl_IPACType\<close> returns a null pointer
  for the unsupported types, and its callers \<open>strcpy\<close> from what it returns: \<open>None\<close>.\<close>

definition dl_SQLType :: "globals \<Rightarrow> Col \<Rightarrow> (string \<times> globals) option" where
  "dl_SQLType g col =
     (let ty = sql_label col (sql_type g);
          g = g\<lparr>sql_type := ty\<rparr>
      in if explode g = 0 \<and> repeat col > 1 \<and> type col \<noteq> TSTRING
         then Some (str_or_null ty @ ''['' @ sprintf_d (repeat col) @ '']'', g)
         else map_option (\<lambda>t. (t, g)) ty)"

definition dl_IPACType :: "Col \<Rightarrow> string option" where
  "dl_IPACType col =
     (case type col of
        TBIT \<Rightarrow> None
      | TCOMPLEX \<Rightarrow> None
      | TDBLCOMPLEX \<Rightarrow> None
      | TSTRING \<Rightarrow> Some ''char''
      | TFLOAT \<Rightarrow> Some ''real''
      | TDOUBLE \<Rightarrow> Some ''double''
      | TOTHER n \<Rightarrow> Some '' ''
      | _ \<Rightarrow> Some ''int'')"

definition dl_colType :: "globals \<Rightarrow> Col \<Rightarrow> (string \<times> globals) option" where
  "dl_colType g col =
     (if format g = TAB_POSTGRES then dl_SQLType g col
      else if format g = TAB_MYSQL then dl_SQLType g col
      else if format g = TAB_SQLITE then dl_SQLType g col
      else map_option (\<lambda>t. (t, g)) (dl_IPACType col))"

subsection \<open>Reading the columns of a table\<close>

text \<open>What the reader (CFITSIO) gives for one column: the fields are what the calls
  \<open>fits_read_key (TTYPEn)\<close>, \<open>fits_get_coltype\<close> and \<open>fits_get_col_display_width\<close> leave
  in the zeroed descriptor, \<open>r_status\<close> is the status after them, and \<open>r_tdim\<close> is what
  \<open>sscanf (dims, "(%d,%d)", ...)\<close> makes of the \<open>TDIMn\<close> key (\<open>None\<close> when the key cannot
  be read).\<close>

datatype scan = Scan0 int | Scan1 int | Scan2 int int

record rcol =
  r_colname :: string
  r_type :: typecode
  r_repeat :: int
  r_width :: int
  r_dispwidth :: int
  r_status :: int
  r_tdim :: "scan option"

text \<open>An open table: \<open>tblbytes firstchar nchars\<close> is \<open>fits_read_tblbytes\<close> from row 1,
  \<open>None\<close> when it sets the status.\<close>

record fitsfile =
  open_status :: int
  hdu_is_image :: bool
  f_nrows :: int
  f_ncols :: int
  f_rowsize :: int
  f_naxis1 :: int
  f_cols :: "nat \<Rightarrow> rcol"
  tblbytes :: "int \<Rightarrow> int \<Rightarrow> byte list option"

definition apply_scan :: "scan \<Rightarrow> Col \<Rightarrow> Col" where
  "apply_scan sc col =
     (case sc of
        Scan0 n \<Rightarrow> col\<lparr>ndim := n\<rparr>
      | Scan1 r \<Rightarrow> col\<lparr>ndim := 1, nrows := r\<rparr>
      | Scan2 r c \<Rightarrow> col\<lparr>ndim := 2, nrows := r, ncols := c\<rparr>)"

text \<open>The \<open>TDIMn\<close> step both loops share: the column and the status after it.\<close>

definition read_tdim :: "globals \<Rightarrow> rcol \<Rightarrow> Col \<Rightarrow> Col \<times> int" where
  "read_tdim g rc col =
     (if repeat col > 1 \<and> type col \<noteq> TSTRING \<and> explode g \<noteq> 0 then
        ((if r_status rc = 0 then (case r_tdim rc of None \<Rightarrow> col | Some sc \<Rightarrow> apply_scan sc col)
          else col), 0)
      else (col, r_status rc))"

definition set_out :: "int \<Rightarrow> (Col \<Rightarrow> Col) \<Rightarrow> globals \<Rightarrow> globals" where
  "set_out i upd g = g\<lparr>outColumns := (outColumns g)(nat i := upd (outColumns g (nat i)))\<rparr>"

text \<open>One exploded output column: \<open>ocol = &outColumns[jj++]\<close> and its three fields.\<close>

definition explode_out :: "Col \<Rightarrow> string \<Rightarrow> int \<times> globals \<Rightarrow> (int \<times> globals) option" where
  "explode_out icol name st =
     (case dl_colType (snd st) icol of
        None \<Rightarrow> None
      | Some r \<Rightarrow>
          Some (fst st + 1,
                set_out (fst st)
                  (\<lambda>ocol. ocol\<lparr>colname := name, coltype := fst r, dispwidth := dispwidth icol\<rparr>)
                  (snd r)))"

definition synthetic_out :: "string \<Rightarrow> (Col \<Rightarrow> Col) \<Rightarrow> globals \<Rightarrow> globals" where
  "synthetic_out name upd g =
     (set_out (numOutCols g + 1) (\<lambda>ocol. upd (ocol\<lparr>colname := name\<rparr>)) g)
       \<lparr>numOutCols := numOutCols g + 1\<rparr>"

text \<open>The body of the loop over the input columns with \<open>explode\<close> on (the state is
  \<open>jj\<close> and the globals), and with \<open>explode\<close> off.\<close>

definition explode_col :: "int \<Rightarrow> int \<times> globals \<Rightarrow> (int \<times> globals) option" where
  "explode_col ii st =
     (let icol = inColumns (snd st) (nat ii) in
      if repeat icol > 1 \<and> type icol \<noteq> TSTRING then
        (if ndim icol > 1 then
           for_loop_opt 1 (nrows icol)
             (\<lambda>i. for_loop_opt 1 (ncols icol)
                (\<lambda>j. explode_out icol (colname icol @ ''_'' @ sprintf_d i @ ''_'' @ sprintf_d j))) st
         else
           for_loop_opt 1 (repeat icol)
             (\<lambda>i. explode_out icol (colname icol @ ''_'' @ sprintf_d i)) st)
      else explode_out icol (colname icol) st)"

definition copy_col :: "int \<Rightarrow> globals \<Rightarrow> globals option" where
  "copy_col i g =
     (let icol = inColumns g (nat i) in
      if format g = TAB_IPAC then
        map_option (\<lambda>t. set_out i (\<lambda>ocol. icol\<lparr>coltype := t\<rparr>) g) (dl_IPACType icol)
      else if TAB_DBTYPE (format g) then
        map_option (\<lambda>r. set_out i (\<lambda>ocol. icol\<lparr>coltype := fst r\<rparr>) (snd r)) (dl_SQLType g icol)
      else Some (set_out i (\<lambda>ocol. icol) g))"

text \<open>The add-column, the serial id column and the random id column, in that order.\<close>

definition add_synthetic :: "globals \<Rightarrow> globals" where
  "add_synthetic g =
     (let g = (case addname g of
                 None \<Rightarrow> g
               | Some a \<Rightarrow> synthetic_out a (\<lambda>ocol. ocol\<lparr>coltype := ''integer''\<rparr>) g);
          g = (case sidname g of
                 None \<Rightarrow> g
               | Some a \<Rightarrow>
                   synthetic_out a
                     (\<lambda>ocol. if format g = TAB_IPAC \<or> format g = TAB_POSTGRES
                              then ocol\<lparr>coltype := ''integer''\<rparr> else ocol) g)
      in case ridname g of
           None \<Rightarrow> g
         | Some a \<Rightarrow>
             synthetic_out a
               (\<lambda>ocol. if format g = TAB_IPAC \<or> format g = TAB_POSTGRES
                        then ocol\<lparr>coltype := ''real''\<rparr> else ocol) g)"

definition dl_getOutputCols :: "globals \<Rightarrow> int \<Rightarrow> int \<Rightarrow> globals option" where
  "dl_getOutputCols g firstcol lastcol =
     map_option add_synthetic
       (if explode g \<noteq> 0 then
          map_option (\<lambda>st. (snd st)\<lparr>numOutCols := fst st - 1\<rparr>)
            (for_loop_opt firstcol lastcol explode_col (firstcol, g))
        else
          map_option (\<lambda>g. g\<lparr>numOutCols := numInCols g\<rparr>)
            (for_loop_opt firstcol lastcol copy_col g))"

text \<open>The body of the loop of \<open>dl_getColInfo\<close>: column \<open>i\<close> is read into \<open>inColumns[i]\<close>.\<close>

definition read_col :: "fitsfile \<Rightarrow> int \<Rightarrow> globals \<Rightarrow> globals" where
  "read_col f i g =
     (let rc = f_cols f (nat i);
          icol = Col_zero\<lparr>colname := r_colname rc, type := r_type rc, repeat := r_repeat rc,
                    width := r_width rc, dispwidth := r_dispwidth rc\<rparr>;
          icol = (if type icol = TSTRING \<and> do_quote g \<noteq> 0
                  then icol\<lparr>dispwidth := dispwidth icol + 2\<rparr> else icol);
          icol = icol\<lparr>colnum := i, ndim := 1, nrows := 1, ncols := repeat icol\<rparr>;
          icol = fst (read_tdim g rc icol)
      in g\<lparr>inColumns := (inColumns g)(nat i := icol), numInCols := numInCols g + 1\<rparr>)"

definition dl_getColInfo :: "globals \<Rightarrow> fitsfile \<Rightarrow> int \<Rightarrow> int \<Rightarrow> globals option" where
  "dl_getColInfo g f firstcol lastcol =
     dl_getOutputCols (for_loop firstcol lastcol (read_col f) (g\<lparr>numInCols := 0\<rparr>)) firstcol lastcol"

text \<open>\<open>dl_validateColInfo\<close>: the status it returns, and the globals it leaves.\<close>

definition new_col :: "globals \<Rightarrow> fitsfile \<Rightarrow> int \<Rightarrow> Col \<times> int" where
  "new_col g f i =
     (let rc = f_cols f (nat i);
          col = Col_zero\<lparr>colnum := i, colname := r_colname rc, type := r_type rc,
                   repeat := r_repeat rc, width := r_width rc\<rparr>;
          col = col\<lparr>ndim := 1, nrows := 1, ncols := repeat col\<rparr>
      in read_tdim g rc col)"

definition col_differs :: "Col \<Rightarrow> Col \<Rightarrow> bool" where
  "col_differs col icol =
     (colname col \<noteq> colname icol
      \<or> (type col \<noteq> type icol \<or> ndim col \<noteq> ndim icol \<or> nrows col \<noteq> nrows icol)
      \<or> (type col \<noteq> TSTRING \<and> (ncols col \<noteq> ncols icol \<or> repeat col \<noteq> repeat icol)))"

definition dl_validateColInfo :: "globals \<Rightarrow> fitsfile \<Rightarrow> int \<Rightarrow> int \<Rightarrow> int \<times> globals" where
  "dl_validateColInfo g f firstcol lastcol =
     (let (newColumns, numCols, status) =
            for_loop firstcol lastcol
              (\<lambda>i (nc, n, st). (nc(nat i := fst (new_col g f i)), n + 1, snd (new_col g f i)))
              (stack_cols g, 0, 0)
      in if list_ex (\<lambda>i. col_differs (newColumns (nat i)) (inColumns g (nat i))) [firstcol..lastcol]
         then (1, g)
         else (status,
               if status = 0
               then g\<lparr>inColumns := (\<lambda>k. if int k < numCols + 1 then newColumns k else inColumns g k)\<rparr>
               else g))"

subsection \<open>Headers and SQL framing\<close>

definition on_ofd :: "(FILE \<Rightarrow> FILE) \<Rightarrow> ostate \<Rightarrow> ostate" where
  "on_ofd h os = os\<lparr>ofd := h (ofd os)\<rparr>"

definition dl_printHdr :: "globals \<Rightarrow> ostate \<Rightarrow> ostate" where
  "dl_printHdr g os =
     (let nc = numOutCols g;
          os = (if format g = TAB_IPAC then on_ofd (fprintf ''|'') os else os);
          os = for_loop 1 nc
                 (\<lambda>i os.
                    let col = outColumns g (nat i);
                        os = (if format g = TAB_IPAC
                              then on_ofd (fprintf (pad_width True (dispwidth col) (colname col))) os
                              else on_ofd (fprintf (colname col)) os)
                    in if i < nc then on_ofd (fprintf '','') os else os) os;
          os = (if format g = TAB_IPAC then on_ofd (fprintf ''|'') os else os);
          os = (if format g = TAB_IPAC \<or> format g = TAB_DELIMITED
                then on_ofd (fprintf [NL]) os else os)
      in on_ofd fflush os)"

text \<open>\<open>dl_printHdrString\<close> writes the per-row INSERT prefix into the output buffer.\<close>

definition dl_printHdrString :: "globals \<Rightarrow> ostate \<Rightarrow> ostate" where
  "dl_printHdrString g os =
     (let nc = numOutCols g;
          os = puts (''INSERT INTO '' @ str_or_null (tablename g) @ '' ('') os;
          os = for_loop 1 nc
                 (\<lambda>i os.
                    let os = puts (colname (outColumns g (nat i))) os
                    in if i < nc then emit '','' 1 os else os) os
      in puts '') VALUES '' os)"

definition dl_createSQLTable :: "globals \<Rightarrow> ostate \<Rightarrow> ostate" where
  "dl_createSQLTable g os =
     (let os = (case dbname g of
                  Some d \<Rightarrow>
                    if format g = TAB_MYSQL
                    then on_ofd (fprintf (''USE '' @ d @ '';'' @ [NL]))
                           (on_ofd (fprintf (''CREATE DATABASE IF NOT EXISTS '' @ d @ '';'' @ [NL])) os)
                    else os
                | None \<Rightarrow> os);
          os = (if do_drop g \<noteq> 0
                then on_ofd (fprintf (''DROP TABLE IF EXISTS '' @ str_or_null (tablename g)
                                        @ '' CASCADE;'' @ [NL])) os
                else os);
          os = on_ofd (fprintf (''CREATE TABLE IF NOT EXISTS '' @ str_or_null (tablename g)
                                  @ '' ('' @ [NL])) os;
          os = for_loop 1 (numOutCols g)
                 (\<lambda>i os.
                    let col = outColumns g (nat i);
                        os = on_ofd (fprintf (''    '' @ colname col @ [TAB] @ coltype col)) os
                    in if i < numOutCols g then on_ofd (fprintf ('','' @ [NL])) os else os) os;
          os = (if do_oids g \<noteq> 0 \<and> format g = TAB_POSTGRES
                then on_ofd (fprintf ([NL] @ '') WITH OIDS;'' @ [NL, NL])) os
                else on_ofd (fprintf ([NL] @ '');'' @ [NL, NL])) os)
      in on_ofd fflush os)"

text \<open>\<open>pgcopy_hdr\<close>, of which \<open>len_pgcopy_hdr = 15\<close> bytes are written.\<close>

definition pgcopy_hdr :: string where
  "pgcopy_hdr = ''PGCOPY'' @ [NL, CHR 0xFF, CHR 0x0D, NL, NUL, NUL, NUL, NUL, NUL]"

definition dl_printSQLHdr :: "globals \<Rightarrow> ostate \<Rightarrow> ostate" where
  "dl_printSQLHdr g os =
     (if do_load g = 0 then os
      else
        (let os =
           (if do_binary g \<noteq> 0 \<and> format g = TAB_POSTGRES then
              (let os = (if noop g = 0
                         then on_ofd (fd_write (''COPY '' @ str_or_null (tablename g)
                                                  @ '' FROM stdin WITH BINARY;'' @ [NL])) os
                         else os);
                   os = on_ofd (fd_write pgcopy_hdr) os
               in on_ofd (fd_write (store_native (swapped g) 4 0)) os)
            else if format g = TAB_POSTGRES then
              on_ofd (fprintf ('') from stdin;'' @ [NL]))
                (dl_printHdr g
                   (on_ofd (fprintf ([NL] @ ''COPY '' @ str_or_null (tablename g) @ '' ('')) os))
            else if format g = TAB_MYSQL \<or> format g = TAB_SQLITE then
              on_ofd (fprintf ('') VALUES'' @ [NL]))
                (dl_printHdr g
                   (on_ofd (fprintf ([NL] @ ''INSERT INTO '' @ str_or_null (tablename g) @ '' ('')) os))
            else os)
         in on_ofd fflush os))"

definition dl_printIPACTypes :: "globals \<Rightarrow> ostate \<Rightarrow> ostate" where
  "dl_printIPACTypes g os =
     (if take 1 (omode g) = ''a'' \<or> format g \<noteq> TAB_IPAC then os
      else
        (let os = dl_printHdr g os;
             os = on_ofd (fprintf ''|'') os;
             os = for_loop 1 (numOutCols g)
                    (\<lambda>i os.
                       let col = outColumns g (nat i)
                       in on_ofd (fprintf (pad_width True (dispwidth col) (coltype col) @ ''|'')) os) os;
             os = on_ofd (fprintf [NL]) os
         in on_ofd fflush os))"

text \<open>\<open>dl_makeTableName\<close>: the name up to the first dot, dashes turned into underscores.
  Without a dot the C stores through a null pointer.\<close>

definition dl_makeTableName :: "string \<Rightarrow> string option" where
  "dl_makeTableName fname =
     (if CHR ''.'' \<in> set fname
      then Some (map (\<lambda>c. if c = CHR ''-'' then CHR ''_'' else c)
                   (takeWhile (\<lambda>c. c \<noteq> CHR ''.'') fname))
      else None)"

subsection \<open>Converting one file: \<open>dl_fits2db\<close>\<close>

definition is_stdout_name :: "string \<Rightarrow> bool" where
  "is_stdout_name oname = (strcasecmp_eq oname ''stdout'' \<or> take 1 oname = ''-'')"

text \<open>\<open>fopen (oname, omode)\<close>: \<open>w+\<close> starts an empty file, \<open>a+\<close> goes on after what the
  file holds.\<close>

definition fopen_ofd :: "globals \<Rightarrow> string \<Rightarrow> ostate \<Rightarrow> ostate" where
  "fopen_ofd g oname os =
     (if is_stdout_name oname then os
      else os\<lparr>ofd := (if take 1 (omode g) = ''w'' then \<lparr>pending = [], written = []\<rparr> else ofd os)\<rparr>)"

text \<open>The block run for the first file, or for every file when not concatenating.\<close>

definition prologue :: "globals \<Rightarrow> fitsfile \<Rightarrow> string \<Rightarrow> int \<Rightarrow> ostate \<Rightarrow> (globals \<times> ostate) option" where
  "prologue g f iname lastcol os =
     (case dl_getColInfo g f 1 lastcol of
        None \<Rightarrow> None
      | Some g \<Rightarrow>
          (case (if tablename g = None
                 then map_option (\<lambda>t. g\<lparr>tablename := Some t\<rparr>) (dl_makeTableName iname)
                 else Some g) of
             None \<Rightarrow> None
           | Some g \<Rightarrow>
               if format g = TAB_DELIMITED then Some (g, dl_printHdr g os)
               else if format g = TAB_IPAC then Some (g, dl_printIPACTypes g os)
               else
                 (let g = (if do_binary g \<noteq> 0
                              \<and> list_ex (\<lambda>c. type (inColumns g (nat c)) \<noteq> TSTRING
                                             \<and> repeat (inColumns g (nat c)) > 1) [1..lastcol]
                           then g\<lparr>do_binary := 0\<rparr> else g);
                      os = (if do_create g \<noteq> 0 then dl_createSQLTable g os else os);
                      os = (if do_truncate g \<noteq> 0
                            then on_ofd (fprintf (''TRUNCATE TABLE '' @ str_or_null (tablename g)
                                                    @ '';'' @ [NL])) os
                            else os)
                  in Some (g, os))))"

text \<open>One row of a chunk: row \<open>j\<close> of \<open>ne\<close>, in a table of \<open>nc\<close> columns.\<close>

definition print_row ::
  "globals \<Rightarrow> int \<Rightarrow> int \<Rightarrow> int \<Rightarrow> int \<Rightarrow> int \<Rightarrow> int \<Rightarrow> byte list \<times> ostate \<Rightarrow> byte list \<times> ostate" where
  "print_row g nc filenum bnum nfiles ne j st =
     (let os = snd st;
          os = (if format g = TAB_POSTGRES \<and> do_binary g \<noteq> 0 then
                  emit (store_native (swapped g) 2
                          (hton (swapped g) 2
                             ((if explode g \<noteq> 0 then numOutCols g else nc) mod 2 ^ 16))) 2 os
                else if single g \<noteq> 0 \<and> (format g = TAB_SQLITE \<or> format g = TAB_MYSQL)
                  then dl_printHdrString g os
                else os);
          (dp, os) = for_loop 1 nc
                       (\<lambda>i (dp, os).
                          dl_printCol g dp (inColumns g (nat i))
                            (if i < nc then delimiter g else NL) os)
                       (fst st, os);
          os = (if format g = TAB_MYSQL \<or> format g = TAB_SQLITE then
                  (if j < ne then putc (CHR '','') os
                   else if filenum < nfiles - 1 \<and> bnum < bundle_n g - 1 then putc (CHR '','') os
                   else os)
                else os)
      in (dp, if do_binary g = 0 then putc NL os else os))"

text \<open>\<open>write (fileno (ofd), obuf, olen)\<close>: defined as long as \<open>olen\<close> stays within the
  bytes put between \<open>obuf\<close> and \<open>optr\<close>.\<close>

definition fd_write_n :: "string \<Rightarrow> int \<Rightarrow> FILE \<Rightarrow> FILE option" where
  "fd_write_n buf n f = (if n \<le> int (length buf) then Some (fd_write (take (nat n) buf) f) else None)"

text \<open>The number of rows the loop starts with: \<open>nelem = chunk\<close> is overwritten by
  \<open>nelem = rowsize\<close>.\<close>

definition io_nelem :: "globals \<Rightarrow> fitsfile \<Rightarrow> int" where
  "io_nelem g f =
     (let chunk = chunk_size g;
          chunk = (if chunk > f_nrows f then f_nrows f else chunk);
          nelem0 = chunk;
          rowsize = f_rowsize f;
          nelem0 = rowsize
      in nelem0)"

text \<open>The loop over the chunks, \<open>for (jj = firstrow; jj <= nrows; jj += nelem)\<close>, with fuel:
  it may run forever.\<close>

fun chunk_loop ::
  "nat \<Rightarrow> globals \<Rightarrow> fitsfile \<Rightarrow> int \<Rightarrow> int \<Rightarrow> int \<Rightarrow> int \<Rightarrow> int \<Rightarrow> int \<Rightarrow> ostate \<Rightarrow> ostate option" where
  "chunk_loop 0 g f filenum bnum nfiles jj nelem0 firstchar os = None"
| "chunk_loop (Suc fuel) g f filenum bnum nfiles jj nelem0 firstchar os =
     (if jj \<le> f_nrows f then
        (let nelem1 = (if jj + nelem0 \<ge> f_nrows f then f_nrows f - jj + 1 else nelem0);
             nbytes = nelem1 * f_naxis1 f;
             os = os\<lparr>reads := reads os @ [(firstchar, nbytes)]\<rparr>
         in case tblbytes f firstchar nbytes of
              None \<Rightarrow> Some os
            | Some data \<Rightarrow>
                (let st = for_loop 1 nelem1 (print_row g (f_ncols f) filenum bnum nfiles nelem1)
                            (data, os\<lparr>obuf := [], olen := 0\<rparr>)
                 in case fd_write_n (obuf (snd st)) (olen (snd st)) (ofd (snd st)) of
                      None \<Rightarrow> None
                    | Some fd \<Rightarrow>
                        chunk_loop fuel g f filenum bnum nfiles (jj + nelem1) nelem1
                          (firstchar + nbytes) ((snd st)\<lparr>ofd := fflush fd\<rparr>)))
      else Some os)"

text \<open>"Terminate the output stream."\<close>

definition terminate_stream :: "globals \<Rightarrow> int \<Rightarrow> int \<Rightarrow> int \<Rightarrow> ostate \<Rightarrow> ostate" where
  "terminate_stream g filenum bnum nfiles os =
     (if (concat_n g \<noteq> 0 \<and> filenum = nfiles - 1) \<or> (bnum > 0 \<and> bnum = bundle_n g - 1) then
        (if format g = TAB_POSTGRES then
           (let eof = (if do_binary g \<noteq> 0 then store_native (swapped g) 2 (2 ^ 16 - 1)
                       else [BACKSLASH, CHR ''.'', NL])
            in on_ofd fflush (on_ofd (fd_write eof) (os\<lparr>obuf := [], olen := int (length eof)\<rparr>)))
         else if format g = TAB_MYSQL \<or> format g = TAB_SQLITE then
           on_ofd fflush (on_ofd (fd_write ('';'' @ [NL])) os)
         else os)
      else os)"

text \<open>How a file starts: the prologue for the first file or when not concatenating,
  the check of the columns otherwise. The flag says that the file is skipped (the
  \<open>return\<close> after "Skipping unmatching table").\<close>

definition start_file ::
  "globals \<Rightarrow> fitsfile \<Rightarrow> string \<Rightarrow> int \<Rightarrow> int \<Rightarrow> ostate \<Rightarrow> (globals \<times> ostate \<times> bool) option" where
  "start_file g f iname lastcol filenum os =
     (if filenum = 0 \<or> concat_n g = 0
      then map_option (\<lambda>r. (fst r, snd r, False)) (prologue g f iname lastcol os)
      else (let r = dl_validateColInfo g f 1 lastcol in Some (snd r, os, fst r \<noteq> 0)))"

definition dl_fits2db ::
  "nat \<Rightarrow> fitsfile \<Rightarrow> string \<Rightarrow> string \<Rightarrow> int \<Rightarrow> int \<Rightarrow> int \<Rightarrow> globals \<times> ostate
     \<Rightarrow> (globals \<times> ostate) option" where
  "dl_fits2db fuel f iname oname filenum bnum nfiles st =
     (let g = (fst st)\<lparr>mach_swap := is_swapped (fst st)\<rparr>;
          os = (snd st)\<lparr>ofd_stdout := is_stdout_name oname\<rparr>
      in if open_status f \<noteq> 0 then Some (g, os)
         else if hdu_is_image f then
           Some (g, printf_stdout (''Error: this program only converts tables, not images'' @ [NL]) os)
         else
           (case start_file g f iname (f_ncols f) filenum (fopen_ofd g oname os) of
              None \<Rightarrow> None
            | Some (g, os, skip) \<Rightarrow>
                if skip then Some (g, os)
                else if do_load g = 0 then Some (g, os)
                else
                  (let os = (if bnum = 0 \<and> TAB_DBTYPE (format g) then dl_printSQLHdr g os else os)
                   in case chunk_loop fuel g f filenum bnum nfiles 1 (io_nelem g f) 1
                             (os\<lparr>obuf := [], olen := 0\<rparr>) of
                        None \<Rightarrow> None
                      | Some os \<Rightarrow>
                          (let os = terminate_stream g filenum bnum nfiles os
                           in Some (g, if ofd_stdout os then os else on_ofd fflush os)))))"

subsection \<open>\<open>main\<close>: the options and the loop over the input files\<close>

fun atoi_digits :: "int \<Rightarrow> string \<Rightarrow> int" where
  "atoi_digits acc [] = acc"
| "atoi_digits acc (c # cs) =
     (let d = of_char c - 48 in if 0 \<le> d \<and> d \<le> 9 then atoi_digits (acc * 10 + d) cs else acc)"

definition isspace :: "byte \<Rightarrow> bool" where
  "isspace c = (c \<in> set [CHR '' '', TAB, NL, CHR 0x0B, CHR 0x0C, CHR 0x0D])"

text \<open>\<open>atoi (v)\<close> is \<open>(int) strtol (v, NULL, 10)\<close>: white space, a sign, the digits;
  \<open>strtol\<close> clamps to the range of \<open>long\<close>, and the conversion to \<open>int\<close> keeps the low
  32 bits. \<open>dl_atoi\<close> adds a warning on stderr.\<close>

definition atoi :: "string \<Rightarrow> int" where
  "atoi v =
     (let n = (case dropWhile isspace v of
                 [] \<Rightarrow> 0
               | c # cs \<Rightarrow> if c = CHR ''-'' then - atoi_digits 0 cs
                           else if c = CHR ''+'' then atoi_digits 0 cs
                           else atoi_digits 0 (c # cs))
      in as_signed 32 (max (- 9223372036854775808) (min 9223372036854775807 n)))"

definition dl_atoi :: "string \<Rightarrow> int" where
  "dl_atoi val = atoi val"

text \<open>One round of the option switch, for the option letter \<open>ch\<close> and its value. \<open>None\<close> is
  a \<open>return\<close> from \<open>main\<close>. \<open>-v\<close> only adds diagnostics; \<open>-s\<close>, \<open>-i\<close> and \<open>-o\<close> set
  variables that only go into the list of input files and the file names \<open>main\<close> builds,
  which the model takes as given (see \<open>infile\<close>).\<close>

definition main_opt :: "byte \<Rightarrow> string \<Rightarrow> globals \<Rightarrow> globals option" where
  "main_opt ch optval g =
     (if ch = CHR ''h'' then None
      else if ch = CHR ''d'' then Some (g\<lparr>debug := debug g + 1\<rparr>)
      else if ch = CHR ''v'' then Some g
      else if ch = CHR ''n'' then Some (g\<lparr>noop := noop g + 1\<rparr>)
      else if ch = CHR ''b'' then Some (g\<lparr>bundle_n := dl_atoi optval\<rparr>)
      else if ch = CHR ''c'' then Some (g\<lparr>chunk_size := dl_atoi optval\<rparr>)
      else if ch = CHR ''e'' then Some (g\<lparr>extnum := dl_atoi optval\<rparr>)
      else if ch = CHR ''E'' then Some (g\<lparr>extname := Some optval\<rparr>)
      else if ch = CHR ''r'' then Some (g\<lparr>rows := Some optval\<rparr>)
      else if ch = CHR ''s'' then Some g
      else if ch = CHR ''t'' then Some (g\<lparr>tablename := Some optval\<rparr>)
      else if ch = CHR ''B'' then Some (g\<lparr>do_binary := do_binary g + 1\<rparr>)
      else if ch = CHR ''C'' then Some (g\<lparr>concat_n := concat_n g + 1\<rparr>)
      else if ch = CHR ''X'' then Some (g\<lparr>explode := explode g + 1\<rparr>)
      else if ch = CHR ''H'' then Some (g\<lparr>header := 0\<rparr>)
      else if ch = CHR ''Q'' then Some (g\<lparr>do_quote := 0\<rparr>)
      else if ch = CHR ''N'' then Some (g\<lparr>do_strip := 0\<rparr>)
      else if ch = CHR ''O'' then Some (g\<lparr>do_oids := 0\<rparr>)
      else if ch = CHR ''Z'' then Some (g\<lparr>do_load := 0\<rparr>)
      else if ch = CHR ''S'' then Some (g\<lparr>quote_char := SQUOTE\<rparr>)
      else if ch = CHR ''i'' \<or> ch = CHR ''o'' then Some g
      else if ch = CHR ''0'' then Some (g\<lparr>delimiter := CHR '' ''\<rparr>)
      else if ch = CHR ''1'' then Some (g\<lparr>delimiter := CHR ''|''\<rparr>)
      else if ch = CHR ''2'' then Some (g\<lparr>delimiter := CHR '',''\<rparr>)
      else if ch = CHR ''3'' then Some (g\<lparr>delimiter := TAB\<rparr>)
      else if ch = CHR ''4'' then Some (g\<lparr>delimiter := CHR ''|'', format := TAB_IPAC\<rparr>)
      else if ch = CHR ''5'' then
        (if take 1 optval = ''m''
         then Some (g\<lparr>format := TAB_MYSQL, delimiter := CHR '','', do_quote := 1, quote_char := DQUOTE\<rparr>)
         else if take 1 optval = ''s'' then Some (g\<lparr>format := TAB_SQLITE\<rparr>)
         else Some (g\<lparr>format := TAB_POSTGRES, delimiter := TAB, do_quote := 0\<rparr>))
      else if ch = CHR ''6'' then Some (g\<lparr>do_drop := do_drop g + 1, do_create := do_create g + 1\<rparr>)
      else if ch = CHR ''7'' then Some (g\<lparr>do_create := do_create g + 1\<rparr>)
      else if ch = CHR ''8'' then Some (g\<lparr>do_truncate := do_truncate g + 1\<rparr>)
      else if ch = CHR ''L'' then Some (g\<lparr>sidname := Some optval\<rparr>)
      else if ch = CHR ''U'' then Some (g\<lparr>ridname := Some optval\<rparr>)
      else if ch = CHR ''D'' then Some (g\<lparr>dbname := Some optval\<rparr>)
      else if ch = CHR ''A'' then Some (g\<lparr>addname := Some optval\<rparr>)
      else None)"

fun main_opts :: "(byte \<times> string) list \<Rightarrow> globals \<Rightarrow> globals option" where
  "main_opts [] g = Some g"
| "main_opts ((ch, optval) # r) g = Option.bind (main_opt ch optval g) (main_opts r)"

text \<open>The globals as their initialisers set them, on a given platform.\<close>

definition globals_init ::
  "int \<Rightarrow> (int \<Rightarrow> string) \<Rightarrow> (int \<Rightarrow> string) \<Rightarrow> (int \<Rightarrow> string) \<Rightarrow> (nat \<Rightarrow> int) \<Rightarrow> (nat \<Rightarrow> Col)
     \<Rightarrow> globals" where
  "globals_init sw ff fd fd16 rnd junk =
     \<lparr>inColumns = (\<lambda>i. Col_zero), outColumns = (\<lambda>i. Col_zero), numInCols = 0, numOutCols = 0,
      sql_type = None, tablename = None, sidname = None, ridname = None, dbname = None, addname = None,
      delimiter = CHR '','', quote_char = DQUOTE, omode = ''w+'', format = TAB_DELIMITED,
      mach_swap = 0, do_binary = 0, do_quote = 1, do_escape = 0, do_strip = 1, do_drop = 0,
      do_create = 0, do_truncate = 0, do_load = 1, do_oids = 0, bundle_n = 1, noop = 0,
      concat_n = 0, explode = 0, header = 1, single = 0, chunk_size = 10000,
      extnum = - 1, extname = None, rows = None, debug = 0,
      is_swapped = sw, sprintf_f_float = ff, sprintf_f_double = fd, sprintf_16f_double = fd16,
      rand_rval = rnd, stack_cols = junk\<rparr>"

definition ostate_init :: ostate where
  "ostate_init = \<lparr>obuf = [], olen = 0, serial_number = 0, rand_calls = 0,
     ofd = \<lparr>pending = [], written = []\<rparr>, ofd_stdout = False, reads = []\<rparr>"

text \<open>An input file as \<open>main\<close> sees it: whether it is a positional argument (or else the
  value of a \<open>-i\<close> option), whether \<open>access\<close> finds it, whether \<open>dl_isFITS\<close> or \<open>dl_isGZip\<close>
  accepts it, the names \<open>main\<close> builds for it (the input name with the extension and the
  selection appended, the output name), and the table the reader opens under that name.\<close>

record infile =
  positional :: bool
  accessible :: bool
  is_fits :: bool
  ifname :: string
  ofname :: string
  fits :: fitsfile

text \<open>The loop over the input files, from file number \<open>i\<close> and bundle position \<open>bnum\<close>.\<close>

fun main_files ::
  "nat \<Rightarrow> infile list \<Rightarrow> int \<Rightarrow> int \<Rightarrow> int \<Rightarrow> globals \<times> ostate \<Rightarrow> (globals \<times> ostate) option" where
  "main_files fuel [] i bnum nfiles st = Some st"
| "main_files fuel (x # xs) i bnum nfiles st =
     (if \<not> accessible x then main_files fuel xs (i + 1) bnum nfiles st
      else
        (let g = (fst st)\<lparr>omode := (if concat_n (fst st) \<noteq> 0 \<and> i > 0 then ''a+'' else ''w+'')\<rparr>
         in if is_fits x then
              (case (if noop g = 0
                     then dl_fits2db fuel (fits x) (ifname x) (ofname x) i bnum nfiles (g, snd st)
                     else Some (g, snd st)) of
                 None \<Rightarrow> None
               | Some st \<Rightarrow>
                   main_files fuel xs (i + 1)
                     (if bnum + 1 = bundle_n (fst st) then 0 else bnum + 1) nfiles st)
            else main_files fuel xs (i + 1) bnum nfiles (g, snd st)))"

text \<open>\<open>main\<close> after the options. The list \<open>ifstart\<close> holds the positional arguments,
  or, when there is none, the last value of \<open>-i\<close>; \<open>nfiles\<close> counts the positional
  arguments only. A \<open>return\<close> before the loop leaves nothing written.\<close>

definition main_run :: "nat \<Rightarrow> infile list \<Rightarrow> globals \<Rightarrow> (globals \<times> ostate) option" where
  "main_run fuel files g =
     (let nfiles = int (length (filter positional files));
          ifstart = (if filter positional files = []
                     then take 1 (rev (filter (\<lambda>x. \<not> positional x) files))
                     else filter positional files)
      in if debug g \<noteq> 0 \<and> noop g \<noteq> 0 then Some (g, ostate_init)
         else if ifstart = [] then Some (g, ostate_init)
         else if extnum g \<ge> 0 \<and> extname g \<noteq> None then Some (g, ostate_init)
         else if rows g \<noteq> None then Some (g, ostate_init)
         else main_files fuel ifstart 0 0 nfiles
                ((if do_binary g \<noteq> 0 then g\<lparr>bundle_n := 1\<rparr> else g), ostate_init))"

subsection \<open>Runs and example tables\<close>

text \<open>Fuel for the loop over the chunks: the loop takes at most one round per row when the
  reader advises at least one row per read.\<close>

definition run_fuel :: "infile list \<Rightarrow> nat" where
  "run_fuel files = Suc (nat (foldl max 0 (map (\<lambda>x. f_nrows (fits x)) files)))"

text \<open>What a run leaves on its output once the stream is flushed at exit, and the reads it
  asks of the reader, for a list of parsed options and of input files. A \<open>return\<close> from
  the option switch leaves nothing written.\<close>

definition run_output :: "(byte \<times> string) list \<Rightarrow> infile list \<Rightarrow> globals \<Rightarrow> string option" where
  "run_output opts files g =
     (case main_opts opts g of
        None \<Rightarrow> Some []
      | Some g \<Rightarrow>
          map_option (\<lambda>st. written (ofd (snd st)) @ pending (ofd (snd st)))
            (main_run (run_fuel files) files g))"

definition run_reads :: "(byte \<times> string) list \<Rightarrow> infile list \<Rightarrow> globals \<Rightarrow> (int \<times> int) list option" where
  "run_reads opts files g =
     (case main_opts opts g of
        None \<Rightarrow> Some []
      | Some g \<Rightarrow> map_option (\<lambda>st. reads (snd st)) (main_run (run_fuel files) files g))"

text \<open>A reader over the bytes of a table: a read that leaves the table sets the status.\<close>

definition read_from :: "byte list \<Rightarrow> int \<Rightarrow> int \<Rightarrow> byte list option" where
  "read_from data fc n =
     (if 0 < fc \<and> 0 \<le> n \<and> fc - 1 + n \<le> int (length data)
      then Some (take (nat n) (drop (nat (fc - 1)) data)) else None)"

definition one_col :: "string \<Rightarrow> typecode \<Rightarrow> int \<Rightarrow> int \<Rightarrow> rcol" where
  "one_col name t rep w = \<lparr>r_colname = name, r_type = t, r_repeat = rep, r_width = w,
     r_dispwidth = 11, r_status = 0, r_tdim = None\<rparr>"

text \<open>A table of \<open>nr\<close> rows with the single column \<open>c\<close>, for which the reader advises
  \<open>rs\<close> rows per read.\<close>

definition one_col_table :: "rcol \<Rightarrow> int \<Rightarrow> int \<Rightarrow> byte list \<Rightarrow> fitsfile" where
  "one_col_table c nr rs data = \<lparr>open_status = 0, hdu_is_image = False, f_nrows = nr, f_ncols = 1,
     f_rowsize = rs, f_naxis1 = r_repeat c * r_width c, f_cols = (\<lambda>i. c), tblbytes = read_from data\<rparr>"

definition to_stdout :: "fitsfile \<Rightarrow> infile" where
  "to_stdout t = \<lparr>positional = True, accessible = True, is_fits = True, ifname = ''t.fits'',
     ofname = ''stdout'', fits = t\<rparr>"

text \<open>One INT column \<open>COL\<close> holding 1, 2, 3; the same with a SHORT column; a SHORT column of
  50 rows; a string column of width 4; a DOUBLE column holding minus infinity.\<close>

definition int123 :: fitsfile where
  "int123 = one_col_table (one_col ''COL'' TINT32BIT 1 4) 3 100
              (be_bytes 4 1 @ be_bytes 4 2 @ be_bytes 4 3)"

definition short123 :: fitsfile where
  "short123 = one_col_table (one_col ''COL'' TSHORT 1 2) 3 100
                (be_bytes 2 1 @ be_bytes 2 2 @ be_bytes 2 3)"

definition short50 :: "int \<Rightarrow> fitsfile" where
  "short50 rs = one_col_table (one_col ''COL'' TSHORT 1 2) 50 rs (replicate 100 NUL)"

definition str_ab :: fitsfile where
  "str_ab = one_col_table (one_col ''S'' TSTRING 4 1) 1 100 '' ab ''"

definition minus_inf :: fitsfile where
  "minus_inf = one_col_table (one_col ''COL'' TDOUBLE 1 8) 1 100
                 [CHR 0xFF, CHR 0xF0, NUL, NUL, NUL, NUL, NUL, NUL]"

text \<open>The descriptor of a scalar INT column, as \<open>dl_getColInfo\<close> fills it.\<close>

definition int_col :: Col where
  "int_col = Col_zero\<lparr>colnum := 1, dispwidth := 11, type := TINT32BIT, ndim := 1, nrows := 1,
     ncols := 1, width := 4, repeat := 1, colname := ''COL''\<rparr>"

text \<open>A little-endian host; its \<open>sprintf\<close> of floating-point numbers and its \<open>rand\<close> are
  not called in the runs below.\<close>

definition host_le :: globals where
  "host_le = globals_init 1 (\<lambda>v. []) (\<lambda>v. []) (\<lambda>v. []) (\<lambda>k. 0) (\<lambda>k. Col_zero)"

text \<open>A column without its \<open>TTYPEn\<close> key: \<open>fits_read_key\<close> sets the status 202
  (\<open>KEY_NO_EXIST\<close>) and the calls after it return at once, so the descriptor stays zeroed.
  A table of three rows with a SHORT column \<open>A\<close> and such a column.\<close>

definition no_ttype :: rcol where
  "no_ttype = \<lparr>r_colname = [], r_type = TOTHER 0, r_repeat = 0, r_width = 0, r_dispwidth = 0,
     r_status = 202, r_tdim = None\<rparr>"

definition unnamed_last :: fitsfile where
  "unnamed_last = \<lparr>open_status = 0, hdu_is_image = False, f_nrows = 3, f_ncols = 2,
     f_rowsize = 100, f_naxis1 = 4,
     f_cols = (\<lambda>i. if i = 1 then one_col ''A'' TSHORT 1 2 else no_ttype),
     tblbytes = read_from (replicate 12 NUL)\<rparr>"

text \<open>The same table with the two columns in the other order.\<close>

definition unnamed_first :: fitsfile where
  "unnamed_first = \<lparr>open_status = 0, hdu_is_image = False, f_nrows = 3, f_ncols = 2,
     f_rowsize = 100, f_naxis1 = 4,
     f_cols = (\<lambda>i. if i = 1 then no_ttype else one_col ''A'' TSHORT 1 2),
     tblbytes = read_from (replicate 12 NUL)\<rparr>"

text \<open>A table of one row with an INT column \<open>COL\<close> holding 1 and a column \<open>B\<close> of 8 bits.\<close>

definition int_then_bit :: fitsfile where
  "int_then_bit = \<lparr>open_status = 0, hdu_is_image = False, f_nrows = 1, f_ncols = 2,
     f_rowsize = 100, f_naxis1 = 5,
     f_cols = (\<lambda>i. if i = 1 then one_col ''COL'' TINT32BIT 1 4 else one_col ''B'' TBIT 8 1),
     tblbytes = read_from (be_bytes 4 1 @ [CHR 0xA5])\<rparr>"

text \<open>The globals after the options \<open>--csv --concat\<close> and a first file \<open>unnamed_last\<close>.\<close>

definition after_unnamed_last :: globals where
  "after_unnamed_last =
     host_le\<lparr>concat_n := 1, mach_swap := 1, numInCols := 2, numOutCols := 2,
       tablename := Some ''t'',
       inColumns := (\<lambda>i. if i = 1 then Col_zero\<lparr>colnum := 1, dispwidth := 11, type := TSHORT,
                                         ndim := 1, nrows := 1, ncols := 1, width := 2, repeat := 1,
                                         colname := ''A''\<rparr>
                           else if i = 2 then Col_zero\<lparr>colnum := 2, ndim := 1, nrows := 1\<rparr>
                           else Col_zero)\<rparr>"

subsection \<open>Notions for the proofs\<close>

text \<open>\<open>g'\<close> differs from \<open>g\<close> in the column globals and the static label only.\<close>

definition cols_only :: "globals \<Rightarrow> globals \<Rightarrow> bool" where
  "cols_only g g' =
     (\<exists>ic oc ni no ty.
        g' = g\<lparr>inColumns := ic, outColumns := oc, numInCols := ni, numOutCols := no, sql_type := ty\<rparr>)"

section \<open>Properties\<close>

subsection \<open>Bundle closers\<close>

text \<open>
  C1. The claim: every SQL-format run writes the bundle closer at the last file of a
  bundle, also for the default \<open>bundle = 1\<close>. The code: with \<open>bundle = 1\<close> the position
  in the bundle is always 0, and the closer's test asks for \<open>bnum > 0\<close>. A run on a
  little-endian host with the options \<open>--sql=postgres --create -t foo\<close> over the table
  with the SHORT column holding 1, 2, 3 ends with the last row, with no closing line of
  backslash and dot; the same run with \<open>--sql=mysql\<close> ends with the last tuple, with no
  semicolon.
\<close>

theorem default_bundle_writes_no_closer:
  "run_output [(CHR ''5'', ''postgres''), (CHR ''7'', []), (CHR ''t'', ''foo'')] [to_stdout short123]
     (globals_init 1 ff fd fe rnd junk)
   = Some (''CREATE TABLE IF NOT EXISTS foo ('' @ [NL] @ ''    COL'' @ [TAB] @ ''smallint'' @ [NL]
           @ '');'' @ [NL, NL, NL]
           @ ''COPY foo (COL) from stdin;'' @ [NL] @ ''1'' @ [NL] @ ''2'' @ [NL] @ ''3'' @ [NL])
   \<and> run_output [(CHR ''5'', ''mysql''), (CHR ''t'', ''foo'')] [to_stdout short123]
        (globals_init 1 ff fd fe rnd junk)
      = Some ([NL] @ ''INSERT INTO foo (COL) VALUES'' @ [NL]
              @ ''(1),'' @ [NL] @ ''(2),'' @ [NL] @ ''(3)'' @ [NL])"
  by code_simp

subsection \<open>Byte order of the numeric columns\<close>

text \<open>
  C2. The claim: on a host whose byte order differs from the table's, the bytes of every
  fixed-width numeric column are swapped before text formatting, and binary payloads are
  big-endian. The code: \<open>dl_printInt\<close> swaps when \<open>mach_swap && do_binary\<close>. On a
  little-endian host the INT value 1 (bytes 00 00 00 01) is shown as 16777216 in text
  mode, and its binary field carries the payload 01 00 00 00.
\<close>

theorem int_column_swapped_for_binary_only:
  "obuf (snd (dl_printInt ((globals_init 1 ff fd fe rnd junk)\<lparr>mach_swap := 1\<rparr>)
                (be_bytes 4 1) int_col ostate_init))
     = ''16777216''
   \<and> obuf (snd (dl_printInt
                  ((globals_init 1 ff fd fe rnd junk)
                     \<lparr>format := TAB_POSTGRES, mach_swap := 1, do_binary := 1\<rparr>)
                  (be_bytes 4 1) int_col ostate_init))
       = [NUL, NUL, NUL, CHR 0x04, CHR 0x01, NUL, NUL, NUL]"
  by code_simp

subsection \<open>The Postgres binary stream\<close>

text \<open>
  C3. The claim: in a Postgres-binary run every row starts with a field count equal to
  the number of output columns, also with synthetic columns. The code: with \<open>explode\<close> off
  the count is the number of table columns. With the options \<open>--sql=postgres --binary
  --add=flag --concat -t foo\<close> over the table with the SHORT column holding 1, 2, 3, each
  row announces one field (00 01) and carries two: the SHORT and the added column.
\<close>

theorem binary_field_count_leaves_out_synthetic_columns:
  "run_output [(CHR ''5'', ''postgres''), (CHR ''B'', []), (CHR ''A'', ''flag''), (CHR ''C'', []),
               (CHR ''t'', ''foo'')] [to_stdout short123] (globals_init 1 ff fd fe rnd junk)
   = Some (''COPY foo FROM stdin WITH BINARY;'' @ [NL] @ pgcopy_hdr @ [NUL, NUL, NUL, NUL]
           @ [NUL, CHR 0x01] @ [NUL, NUL, NUL, CHR 0x02] @ be_bytes 2 1
                             @ [NUL, NUL, NUL, CHR 0x04] @ be_bytes 4 1
           @ [NUL, CHR 0x01] @ [NUL, NUL, NUL, CHR 0x02] @ be_bytes 2 2
                             @ [NUL, NUL, NUL, CHR 0x04] @ be_bytes 4 1
           @ [NUL, CHR 0x01] @ [NUL, NUL, NUL, CHR 0x02] @ be_bytes 2 3
                             @ [NUL, NUL, NUL, CHR 0x04] @ be_bytes 4 1
           @ [CHR 0xFF, CHR 0xFF])"
  by code_simp

subsection \<open>Strings in text mode\<close>

text \<open>
  C4. The claim: a string keeps its leading and trailing spaces when the strip flag is
  off, also with quoting off. The code: the branch for \<open>do_escape\<close> and \<open>do_quote\<close> both
  off calls \<open>sstrip\<close> without a test of \<open>do_strip\<close>. With \<open>--csv --nostrip --noquote\<close> the
  value of width 4 holding a space, \<open>ab\<close> and a space is written as \<open>ab\<close>; with
  \<open>--csv --nostrip\<close> it is written with its spaces, in quotes.
\<close>

theorem nostrip_noquote_still_strips:
  "run_output [(CHR ''2'', []), (CHR ''N'', []), (CHR ''Q'', [])] [to_stdout str_ab]
     (globals_init 1 ff fd fe rnd junk)
   = Some (''S'' @ [NL] @ ''ab'' @ [NL])
   \<and> run_output [(CHR ''2'', []), (CHR ''N'', [])] [to_stdout str_ab]
        (globals_init 1 ff fd fe rnd junk)
      = Some (''S'' @ [NL] @ [DQUOTE] @ '' ab '' @ [DQUOTE] @ [NL])"
  by code_simp

subsection \<open>NaN and the infinities\<close>

text \<open>
  C5. The claim: minus infinity is written as \<open>-Infinity\<close>. The code: the text is chosen
  by \<open>sign ? "Infinity" : "-Infinity"\<close> in the branch where \<open>sign = isinf (x)\<close> is not zero.
  The DOUBLE minus infinity (bytes FF F0 00 00 00 00 00 00) is written as \<open>Infinity\<close>
  under Postgres and in quotes under MySQL.
\<close>

theorem minus_infinity_written_as_infinity:
  "run_output [(CHR ''5'', ''postgres''), (CHR ''t'', ''foo'')] [to_stdout minus_inf]
     (globals_init 1 ff fd fe rnd junk)
   = Some ([NL] @ ''COPY foo (COL) from stdin;'' @ [NL] @ ''Infinity'' @ [NL])
   \<and> run_output [(CHR ''5'', ''mysql''), (CHR ''t'', ''foo'')] [to_stdout minus_inf]
        (globals_init 1 ff fd fe rnd junk)
      = Some ([NL] @ ''INSERT INTO foo (COL) VALUES'' @ [NL]
              @ ''('' @ [SQUOTE] @ ''Infinity'' @ [SQUOTE] @ '')'' @ [NL])"
  by code_simp

subsection \<open>Checking the columns of a later file\<close>

text \<open>
  C6. The claim: under concatenation a second or later file is streamed if and only if
  every column matches the recorded one. The code: \<open>dl_validateColInfo\<close> resets the
  reader's status at the top of each round of its loop over the columns, and when no
  column differs it returns the status the last column left (\<open>return (status)\<close>, with
  the comment "No error"); \<open>dl_fits2db\<close> skips the file on any value but zero. The table
  \<open>unnamed_last\<close>, whose last column has no \<open>TTYPEn\<close> key, read twice: the first file
  records the columns of the first equation; the columns of the second file agree with
  them in the six fields that are compared (second equation); the second file is
  skipped (third equation); and the run writes the three rows of the first file only
  (fourth equation). With the same column in the first place (\<open>unnamed_first\<close>) the
  status is reset before the last column is read, and the second file is not skipped
  (fifth equation). The loop runs over the columns of the later file only: a later file
  that holds the first column alone is not skipped either (sixth equation).
\<close>

theorem matching_file_skipped_on_reader_status:
  "map (inColumns (for_loop 1 2 (read_col unnamed_last) (host_le\<lparr>concat_n := 1, numInCols := 0\<rparr>))) [1, 2]
     = map (inColumns after_unnamed_last) [1, 2]
   \<and> map (\<lambda>i. let c = fst (new_col after_unnamed_last unnamed_last i)
                in (colname c, type c, ndim c, nrows c, ncols c, repeat c)) [1, 2]
       = map (\<lambda>i. let c = inColumns after_unnamed_last (nat i)
                    in (colname c, type c, ndim c, nrows c, ncols c, repeat c)) [1, 2]
   \<and> map_option (\<lambda>r. snd (snd r))
        (start_file after_unnamed_last unnamed_last ''b.fits'' 2 1 ostate_init) = Some True
   \<and> run_output [(CHR ''2'', []), (CHR ''C'', [])] [to_stdout unnamed_last, to_stdout unnamed_last] host_le
       = Some (''A,'' @ [NL] @ ''0,'' @ [NL] @ ''0,'' @ [NL] @ ''0,'' @ [NL])
   \<and> Option.bind (dl_getColInfo (host_le\<lparr>concat_n := 1\<rparr>) unnamed_first 1 2)
        (\<lambda>g. map_option (\<lambda>r. snd (snd r)) (start_file g unnamed_first ''b.fits'' 2 1 ostate_init))
       = Some False
   \<and> map_option (\<lambda>r. snd (snd r))
        (start_file after_unnamed_last (one_col_table (one_col ''A'' TSHORT 1 2) 3 100 (replicate 6 NUL))
           ''b.fits'' 1 1 ostate_init) = Some False"
  by code_simp

subsection \<open>Rows per read\<close>

text \<open>
  C7. The claim: each read takes the least of the reader's advice, the \<open>--chunk\<close> value
  and the rows left. The code: \<open>nelem = chunk\<close> is overwritten by \<open>nelem = rowsize\<close>, and
  the last read is taken when \<open>jj + nelem >= nrows\<close>. A table of 50 rows of 2 bytes, with
  an advice of 100 rows and \<open>--chunk=10\<close>, is read in one read of 100 bytes (50 rows, not
  10); with an advice of 7 rows the last read takes 16 bytes (8 rows).
\<close>

theorem chunk_option_not_used:
  "run_reads [(CHR ''2'', []), (CHR ''c'', ''10'')] [to_stdout (short50 100)]
     (globals_init 1 ff fd fe rnd junk)
   = Some [(1, 100)]
   \<and> run_reads [(CHR ''2'', [])] [to_stdout (short50 7)] (globals_init 1 ff fd fe rnd junk)
      = Some [(1, 14), (15, 14), (29, 14), (43, 14), (57, 14), (71, 14), (85, 16)]"
  by code_simp

subsection \<open>The header row\<close>

text \<open>
  C8. The claim: under the delimited format the header row is written only when the
  header flag is on, and \<open>--csv --noheader\<close> on the table with the INT column holding
  1, 2, 3 gives the six bytes of the three rows. The code: \<open>-H\<close> sets \<open>header = 0\<close>, and
  nothing reads \<open>header\<close>. The run writes the header row \<open>COL\<close> first, on a big-endian
  host (first equation) and on a little-endian one (second equation, where the INT
  values are also shown unswapped).
\<close>

theorem noheader_still_writes_header:
  "run_output [(CHR ''2'', []), (CHR ''H'', [])] [to_stdout int123] (globals_init 0 ff fd fe rnd junk)
   = Some (''COL'' @ [NL] @ ''1'' @ [NL] @ ''2'' @ [NL] @ ''3'' @ [NL])
   \<and> run_output [(CHR ''2'', []), (CHR ''H'', [])] [to_stdout int123] (globals_init 1 ff fd fe rnd junk)
      = Some (''COL'' @ [NL] @ ''16777216'' @ [NL] @ ''33554432'' @ [NL] @ ''50331648'' @ [NL])"
  by code_simp

subsection \<open>The serial id column\<close>

text \<open>
  C9. The claim: the serial values written are 0, 1, 2, ... The code: in binary mode on a
  little-endian host \<open>dl_printSerial\<close> runs \<open>bswap4\<close> on the value and then \<open>htonl\<close>, which
  swaps it back. Three calls in a row, as made for the first three rows of a run with
  \<open>--sql=postgres --binary --sid=id\<close>, write fields of length 4 that hold the bytes of
  0, 1, 2 in little-endian order, which a reader of the big-endian format takes for
  0, 16777216, 33554432. \<open>dl_printValue\<close>, which only calls \<open>htonl\<close>, writes big-endian
  bytes on the same host.
\<close>

theorem binary_serial_little_endian:
  "obuf (dl_printSerial
           ((globals_init 1 ff fd fe rnd junk)\<lparr>format := TAB_POSTGRES, mach_swap := 1, do_binary := 1\<rparr>)
           (dl_printSerial
              ((globals_init 1 ff fd fe rnd junk)\<lparr>format := TAB_POSTGRES, mach_swap := 1, do_binary := 1\<rparr>)
              (dl_printSerial
                 ((globals_init 1 ff fd fe rnd junk)\<lparr>format := TAB_POSTGRES, mach_swap := 1, do_binary := 1\<rparr>)
                 ostate_init)))
     = [NUL, NUL, NUL, CHR 0x04] @ rev (be_bytes 4 0)
       @ [NUL, NUL, NUL, CHR 0x04] @ rev (be_bytes 4 1)
       @ [NUL, NUL, NUL, CHR 0x04] @ rev (be_bytes 4 2)
   \<and> be_int (rev (be_bytes 4 1)) = 16777216
   \<and> obuf (dl_printValue
              ((globals_init 1 ff fd fe rnd junk)\<lparr>format := TAB_POSTGRES, mach_swap := 1, do_binary := 1\<rparr>)
              1 ostate_init)
       = [NUL, NUL, NUL, CHR 0x04] @ be_bytes 4 1"
  by code_simp

subsection \<open>Loops\<close>

lemma foldl_inv:
  "P s \<Longrightarrow> (\<And>i s. P s \<Longrightarrow> P (body i s)) \<Longrightarrow> P (foldl (\<lambda>s i. body i s) s xs)"
  by (induction xs arbitrary: s) auto

lemma for_loop_inv:
  "P s \<Longrightarrow> (\<And>i s. P s \<Longrightarrow> P (body i s)) \<Longrightarrow> P (for_loop lo hi body s)"
  unfolding for_loop_def by (rule foldl_inv)

lemma foldl_opt_None: "foldl (\<lambda>s i. Option.bind s (body i)) None xs = None"
  by (induction xs) auto

lemma foldl_opt_inv:
  "P s \<Longrightarrow> (\<And>i s s'. P s \<Longrightarrow> body i s = Some s' \<Longrightarrow> P s')
     \<Longrightarrow> foldl (\<lambda>s i. Option.bind s (body i)) (Some s) xs = Some s' \<Longrightarrow> P s'"
proof (induction xs arbitrary: s)
  case Nil
  then show ?case by simp
next
  case (Cons x xs)
  show ?case
  proof (cases "body x s")
    case None
    with Cons.prems(3) show ?thesis by (simp add: foldl_opt_None)
  next
    case (Some t)
    with Cons.prems have "P t" by blast
    moreover from Some Cons.prems(3)
    have "foldl (\<lambda>s i. Option.bind s (body i)) (Some t) xs = Some s'" by simp
    ultimately show ?thesis using Cons.IH Cons.prems(2) by blast
  qed
qed

lemma for_loop_opt_inv:
  "P s \<Longrightarrow> (\<And>i s s'. P s \<Longrightarrow> body i s = Some s' \<Longrightarrow> P s')
     \<Longrightarrow> for_loop_opt lo hi body s = Some s' \<Longrightarrow> P s'"
  unfolding for_loop_opt_def by (rule foldl_opt_inv)

lemma foldl_commute:
  "(\<And>i s. body' i (u s) = u (body i s))
     \<Longrightarrow> foldl (\<lambda>s i. body' i s) (u s) xs = u (foldl (\<lambda>s i. body i s) s xs)"
  by (induction xs arbitrary: s) auto

lemma for_loop_commute:
  "(\<And>i s. body' i (u s) = u (body i s))
     \<Longrightarrow> for_loop lo hi body' (u s) = u (for_loop lo hi body s)"
  unfolding for_loop_def by (rule foldl_commute)

lemma foldl_opt_commute:
  "(\<And>i s. body' i (u s) = map_option u (body i s))
     \<Longrightarrow> foldl (\<lambda>s i. Option.bind s (body' i)) (map_option u a) xs
         = map_option u (foldl (\<lambda>s i. Option.bind s (body i)) a xs)"
proof (induction xs arbitrary: a)
  case Nil
  then show ?case by simp
next
  case (Cons x xs)
  have "Option.bind (map_option u a) (body' x) = map_option u (Option.bind a (body x))"
    using Cons.prems by (cases a) auto
  then show ?case using Cons.IH [OF Cons.prems] by simp
qed

lemma for_loop_opt_commute:
  "(\<And>i s. body' i (u s) = map_option u (body i s))
     \<Longrightarrow> for_loop_opt lo hi body' (u s) = map_option u (for_loop_opt lo hi body s)"
  unfolding for_loop_opt_def using foldl_opt_commute [of body' u body "Some s"] by simp


subsection \<open>\<open>do_create\<close> is only tested against zero\<close>

text \<open>The functions that fill the column globals do not read \<open>do_create\<close>.\<close>

lemma create_numOutCols:
  "g\<lparr>do_create := c, numOutCols := n\<rparr> = g\<lparr>numOutCols := n, do_create := c\<rparr>"
  by simp

lemma create_numInCols:
  "g\<lparr>do_create := c, numInCols := n\<rparr> = g\<lparr>numInCols := n, do_create := c\<rparr>"
  by simp

lemma create_sql_type:
  "g\<lparr>do_create := c, sql_type := t\<rparr> = g\<lparr>sql_type := t, do_create := c\<rparr>"
  by simp

lemma set_out_create: "set_out i upd (g\<lparr>do_create := c\<rparr>) = (set_out i upd g)\<lparr>do_create := c\<rparr>"
  by (simp add: set_out_def)

lemma dl_SQLType_create:
  "dl_SQLType (g\<lparr>do_create := c\<rparr>) col
     = map_option (apsnd (\<lambda>g. g\<lparr>do_create := c\<rparr>)) (dl_SQLType g col)"
  by (simp add: dl_SQLType_def Let_def option.map_comp comp_def create_sql_type)

lemma dl_colType_create:
  "dl_colType (g\<lparr>do_create := c\<rparr>) col
     = map_option (apsnd (\<lambda>g. g\<lparr>do_create := c\<rparr>)) (dl_colType g col)"
  by (simp add: dl_colType_def dl_SQLType_create option.map_comp comp_def)

lemma explode_out_create:
  "explode_out icol name (apsnd (\<lambda>g. g\<lparr>do_create := c\<rparr>) st)
     = map_option (apsnd (\<lambda>g. g\<lparr>do_create := c\<rparr>)) (explode_out icol name st)"
  by (cases st) (auto simp: explode_out_def set_out_create dl_colType_create split: option.splits)

lemma explode_col_create:
  "explode_col ii (apsnd (\<lambda>g. g\<lparr>do_create := c\<rparr>) st)
     = map_option (apsnd (\<lambda>g. g\<lparr>do_create := c\<rparr>)) (explode_col ii st)"
proof -
  have in_eq: "inColumns (snd (apsnd (\<lambda>g. g\<lparr>do_create := c\<rparr>) st)) = inColumns (snd st)"
    by (cases st) simp
  show ?thesis
    unfolding explode_col_def in_eq Let_def
    by (auto intro!: for_loop_opt_commute explode_out_create)
qed

lemma copy_col_create:
  "copy_col i (g\<lparr>do_create := c\<rparr>) = map_option (\<lambda>g. g\<lparr>do_create := c\<rparr>) (copy_col i g)"
  by (simp add: copy_col_def Let_def set_out_create dl_SQLType_create option.map_comp comp_def)

lemma synthetic_out_create:
  "synthetic_out a upd (g\<lparr>do_create := c\<rparr>) = (synthetic_out a upd g)\<lparr>do_create := c\<rparr>"
  by (simp add: synthetic_out_def set_out_create)

lemma add_synthetic_create:
  "add_synthetic (g\<lparr>do_create := c\<rparr>) = (add_synthetic g)\<lparr>do_create := c\<rparr>"
  by (simp add: add_synthetic_def Let_def synthetic_out_create split: option.splits)

lemma dl_getOutputCols_create:
  "dl_getOutputCols (g\<lparr>do_create := c\<rparr>) a b
     = map_option (\<lambda>g. g\<lparr>do_create := c\<rparr>) (dl_getOutputCols g a b)"
proof -
  have ex: "for_loop_opt a b explode_col (a, g\<lparr>do_create := c\<rparr>)
              = map_option (apsnd (\<lambda>g. g\<lparr>do_create := c\<rparr>)) (for_loop_opt a b explode_col (a, g))"
    using for_loop_opt_commute [of explode_col "apsnd (\<lambda>g. g\<lparr>do_create := c\<rparr>)" explode_col a b "(a, g)"]
    by (simp add: explode_col_create)
  have nex: "for_loop_opt a b copy_col (g\<lparr>do_create := c\<rparr>)
              = map_option (\<lambda>g. g\<lparr>do_create := c\<rparr>) (for_loop_opt a b copy_col g)"
    by (rule for_loop_opt_commute) (rule copy_col_create)
  show ?thesis
    unfolding dl_getOutputCols_def
    by (simp add: ex nex option.map_comp comp_def add_synthetic_create split_beta create_numOutCols)
qed

lemma read_col_create:
  "read_col f i (g\<lparr>do_create := c\<rparr>) = (read_col f i g)\<lparr>do_create := c\<rparr>"
  by (simp add: read_col_def Let_def read_tdim_def)

lemma dl_getColInfo_create:
  "dl_getColInfo (g\<lparr>do_create := c\<rparr>) f a b
     = map_option (\<lambda>g. g\<lparr>do_create := c\<rparr>) (dl_getColInfo g f a b)"
proof -
  have "for_loop a b (read_col f) (g\<lparr>do_create := c, numInCols := 0\<rparr>)
          = (for_loop a b (read_col f) (g\<lparr>numInCols := 0\<rparr>))\<lparr>do_create := c\<rparr>"
    unfolding create_numInCols
    by (rule for_loop_commute) (rule read_col_create)
  then show ?thesis
    by (simp add: dl_getColInfo_def dl_getOutputCols_create)
qed

text \<open>They change the column globals only.\<close>

lemma cols_only_refl: "cols_only g g"
  unfolding cols_only_def
  by (rule exI [of _ "inColumns g"], rule exI [of _ "outColumns g"],
      rule exI [of _ "numInCols g"], rule exI [of _ "numOutCols g"],
      rule exI [of _ "sql_type g"]) simp

lemma cols_only_outColumns: "cols_only g g' \<Longrightarrow> cols_only g (g'\<lparr>outColumns := x\<rparr>)"
proof -
  assume "cols_only g g'"
  then obtain ic oc ni no ty
    where "g' = g\<lparr>inColumns := ic, outColumns := oc, numInCols := ni, numOutCols := no,
                  sql_type := ty\<rparr>"
    unfolding cols_only_def by blast
  then have "g'\<lparr>outColumns := x\<rparr>
               = g\<lparr>inColumns := ic, outColumns := x, numInCols := ni, numOutCols := no,
                   sql_type := ty\<rparr>"
    by simp
  then show ?thesis unfolding cols_only_def by blast
qed

lemma cols_only_numOutCols: "cols_only g g' \<Longrightarrow> cols_only g (g'\<lparr>numOutCols := x\<rparr>)"
proof -
  assume "cols_only g g'"
  then obtain ic oc ni no ty
    where "g' = g\<lparr>inColumns := ic, outColumns := oc, numInCols := ni, numOutCols := no,
                  sql_type := ty\<rparr>"
    unfolding cols_only_def by blast
  then have "g'\<lparr>numOutCols := x\<rparr>
               = g\<lparr>inColumns := ic, outColumns := oc, numInCols := ni, numOutCols := x,
                   sql_type := ty\<rparr>"
    by simp
  then show ?thesis unfolding cols_only_def by blast
qed

lemma cols_only_numInCols: "cols_only g g' \<Longrightarrow> cols_only g (g'\<lparr>numInCols := y\<rparr>)"
proof -
  assume "cols_only g g'"
  then obtain ic oc ni no ty
    where "g' = g\<lparr>inColumns := ic, outColumns := oc, numInCols := ni, numOutCols := no,
                  sql_type := ty\<rparr>"
    unfolding cols_only_def by blast
  then have "g'\<lparr>numInCols := y\<rparr>
               = g\<lparr>inColumns := ic, outColumns := oc, numInCols := y, numOutCols := no,
                   sql_type := ty\<rparr>"
    by simp
  then show ?thesis unfolding cols_only_def by blast
qed

lemma cols_only_inColumns: "cols_only g g' \<Longrightarrow> cols_only g (g'\<lparr>inColumns := x\<rparr>)"
proof -
  assume "cols_only g g'"
  then obtain ic oc ni no ty
    where "g' = g\<lparr>inColumns := ic, outColumns := oc, numInCols := ni, numOutCols := no,
                  sql_type := ty\<rparr>"
    unfolding cols_only_def by blast
  then have "g'\<lparr>inColumns := x\<rparr>
               = g\<lparr>inColumns := x, outColumns := oc, numInCols := ni, numOutCols := no,
                   sql_type := ty\<rparr>"
    by simp
  then show ?thesis unfolding cols_only_def by blast
qed

lemma cols_only_sql_type: "cols_only g g' \<Longrightarrow> cols_only g (g'\<lparr>sql_type := x\<rparr>)"
proof -
  assume "cols_only g g'"
  then obtain ic oc ni no ty
    where "g' = g\<lparr>inColumns := ic, outColumns := oc, numInCols := ni, numOutCols := no,
                  sql_type := ty\<rparr>"
    unfolding cols_only_def by blast
  then have "g'\<lparr>sql_type := x\<rparr>
               = g\<lparr>inColumns := ic, outColumns := oc, numInCols := ni, numOutCols := no,
                   sql_type := x\<rparr>"
    by simp
  then show ?thesis unfolding cols_only_def by blast
qed

lemma cols_only_SQLType:
  "cols_only g g' \<Longrightarrow> dl_SQLType g' col = Some r \<Longrightarrow> cols_only g (snd r)"
  by (auto simp: dl_SQLType_def Let_def cols_only_sql_type split: if_splits)

lemma cols_only_colType:
  assumes "cols_only g g'" and "dl_colType g' col = Some r"
  shows "cols_only g (snd r)"
proof (cases "TAB_DBTYPE (format g')")
  case True
  then have "dl_colType g' col = dl_SQLType g' col"
    by (cases "format g'") (simp_all add: dl_colType_def TAB_DBTYPE_def)
  with assms show ?thesis by (simp add: cols_only_SQLType)
next
  case False
  then have "dl_colType g' col = map_option (\<lambda>t. (t, g')) (dl_IPACType col)"
    by (cases "format g'") (simp_all add: dl_colType_def TAB_DBTYPE_def)
  with assms show ?thesis by auto
qed

lemma cols_only_set_out: "cols_only g g' \<Longrightarrow> cols_only g (set_out i upd g')"
  by (simp add: set_out_def cols_only_outColumns)

lemma cols_only_synthetic_out: "cols_only g g' \<Longrightarrow> cols_only g (synthetic_out a upd g')"
  by (simp add: synthetic_out_def cols_only_set_out cols_only_numOutCols)

lemma cols_only_add_synthetic: "cols_only g g' \<Longrightarrow> cols_only g (add_synthetic g')"
  by (simp add: add_synthetic_def Let_def cols_only_synthetic_out split: option.splits)

lemma cols_only_explode_out:
  assumes "cols_only g (snd st)" and "explode_out icol name st = Some st'"
  shows "cols_only g (snd st')"
proof -
  from assms(2) obtain r where r: "dl_colType (snd st) icol = Some r"
    and st': "st' = (fst st + 1,
                     set_out (fst st)
                       (\<lambda>ocol. ocol\<lparr>colname := name, coltype := fst r, dispwidth := dispwidth icol\<rparr>)
                       (snd r))"
    by (auto simp: explode_out_def split: option.splits)
  have "cols_only g (snd r)" by (rule cols_only_colType [OF assms(1) r])
  then show ?thesis by (simp add: st' cols_only_set_out)
qed

lemma cols_only_explode_col:
  assumes "cols_only g (snd st)" and "explode_col ii st = Some st'"
  shows "cols_only g (snd st')"
proof -
  have inner: "\<And>name s s'. cols_only g (snd s) \<Longrightarrow> explode_out (inColumns (snd st) (nat ii)) name s = Some s'
                 \<Longrightarrow> cols_only g (snd s')"
    by (rule cols_only_explode_out)
  show ?thesis
    using assms(2) unfolding explode_col_def Let_def
    apply (simp split: if_splits)
      apply (erule for_loop_opt_inv [where P = "\<lambda>s. cols_only g (snd s)", rotated 2])
       apply (rule assms(1))
      apply (erule for_loop_opt_inv [where P = "\<lambda>s. cols_only g (snd s)", rotated 2])
       apply assumption
      apply (erule (1) inner)
     apply (erule for_loop_opt_inv [where P = "\<lambda>s. cols_only g (snd s)", rotated 2])
      apply (rule assms(1))
     apply (erule (1) inner)
    apply (erule inner [OF assms(1)])
    done
qed

lemma cols_only_copy_col:
  assumes "cols_only g g'" and "copy_col i g' = Some g''"
  shows "cols_only g g''"
proof (cases "format g' \<noteq> TAB_IPAC \<and> TAB_DBTYPE (format g')")
  case True
  with assms(2) obtain r where r: "dl_SQLType g' (inColumns g' (nat i)) = Some r"
    and g'': "g'' = set_out i (\<lambda>ocol. (inColumns g' (nat i))\<lparr>coltype := fst r\<rparr>) (snd r)"
    by (auto simp: copy_col_def Let_def)
  have "cols_only g (snd r)" by (rule cols_only_SQLType [OF assms(1) r])
  then show ?thesis by (simp add: g'' cols_only_set_out)
next
  case False
  with assms show ?thesis
    by (auto simp: copy_col_def Let_def cols_only_set_out split: if_splits)
qed

lemma cols_only_getOutputCols:
  assumes "cols_only g g1" and "dl_getOutputCols g1 a b = Some g'"
  shows "cols_only g g'"
proof (cases "explode g1 \<noteq> 0")
  case True
  with assms(2) obtain st where st: "for_loop_opt a b explode_col (a, g1) = Some st"
    and g': "g' = add_synthetic ((snd st)\<lparr>numOutCols := fst st - 1\<rparr>)"
    by (auto simp: dl_getOutputCols_def)
  have "cols_only g (snd st)"
    by (rule for_loop_opt_inv [where P = "\<lambda>s. cols_only g (snd s)", OF _ _ st])
       (simp_all add: assms(1) cols_only_explode_col)
  then show ?thesis by (simp add: g' cols_only_add_synthetic cols_only_numOutCols)
next
  case False
  with assms(2) obtain g2 where g2: "for_loop_opt a b copy_col g1 = Some g2"
    and g': "g' = add_synthetic (g2\<lparr>numOutCols := numInCols g2\<rparr>)"
    by (auto simp: dl_getOutputCols_def)
  have "cols_only g g2"
    by (rule for_loop_opt_inv [where P = "cols_only g", OF _ _ g2])
       (simp_all add: assms(1) cols_only_copy_col)
  then show ?thesis by (simp add: g' cols_only_add_synthetic cols_only_numOutCols)
qed

lemma cols_only_read_col: "cols_only g g' \<Longrightarrow> cols_only g (read_col f i g')"
  by (simp add: read_col_def Let_def cols_only_inColumns cols_only_numInCols)

lemma cols_only_getColInfo:
  assumes "dl_getColInfo g f a b = Some g'"
  shows "cols_only g g'"
proof -
  have "cols_only g (for_loop a b (read_col f) (g\<lparr>numInCols := 0\<rparr>))"
    by (rule for_loop_inv) (simp_all add: cols_only_refl cols_only_numInCols cols_only_read_col)
  then show ?thesis
    using assms unfolding dl_getColInfo_def by (rule cols_only_getOutputCols)
qed


lemma cols_only_fields:
  assumes "cols_only g g'"
  shows "format g' = format g" and "do_create g' = do_create g" and "do_drop g' = do_drop g"
    and "tablename g' = tablename g"
  using assms by (auto simp: cols_only_def)

lemma create_tablename:
  "g\<lparr>do_create := c, tablename := t\<rparr> = g\<lparr>tablename := t, do_create := c\<rparr>"
  by simp

lemma create_do_binary:
  "g\<lparr>do_create := c, do_binary := b\<rparr> = g\<lparr>do_binary := b, do_create := c\<rparr>"
  by simp

lemma dl_printHdr_create: "dl_printHdr (g\<lparr>do_create := c\<rparr>) os = dl_printHdr g os"
  by (simp add: dl_printHdr_def)

lemma dl_printIPACTypes_create: "dl_printIPACTypes (g\<lparr>do_create := c\<rparr>) os = dl_printIPACTypes g os"
  by (simp add: dl_printIPACTypes_def dl_printHdr_create)

lemma dl_createSQLTable_create: "dl_createSQLTable (g\<lparr>do_create := c\<rparr>) os = dl_createSQLTable g os"
  by (simp add: dl_createSQLTable_def Let_def split: option.splits)

lemma prologue_create:
  assumes "c \<noteq> 0" and "do_create g \<noteq> 0"
  shows "prologue (g\<lparr>do_create := c\<rparr>) f iname n os
           = map_option (\<lambda>r. ((fst r)\<lparr>do_create := c\<rparr>, snd r)) (prologue g f iname n os)"
proof (cases "dl_getColInfo g f 1 n")
  case None
  then show ?thesis by (simp add: prologue_def dl_getColInfo_create)
next
  case (Some g1)
  then have dc: "do_create g1 \<noteq> 0"
    using assms(2) cols_only_fields(2) [OF cols_only_getColInfo [OF Some]] by simp
  show ?thesis
  proof (cases "if tablename g1 = None
                 then map_option (\<lambda>t. g1\<lparr>tablename := Some t\<rparr>) (dl_makeTableName iname)
                 else Some g1")
    case None
    then show ?thesis
      using Some by (auto simp: prologue_def dl_getColInfo_create split: if_splits)
  next
    case g2: (Some g2)
    have dc2: "do_create g2 \<noteq> 0"
      using g2 dc by (auto split: if_splits)
    have step: "(if tablename (g1\<lparr>do_create := c\<rparr>) = None
                 then map_option (\<lambda>t. g1\<lparr>do_create := c, tablename := Some t\<rparr>) (dl_makeTableName iname)
                 else Some (g1\<lparr>do_create := c\<rparr>)) = Some (g2\<lparr>do_create := c\<rparr>)"
      using g2 by (auto simp: create_tablename split: if_splits)
    show ?thesis
      using Some g2 step assms(1) dc2
      by (simp add: prologue_def dl_getColInfo_create dl_printHdr_create dl_printIPACTypes_create
            dl_createSQLTable_create create_do_binary Let_def)
  qed
qed

text \<open>What \<open>dl_createSQLTable\<close> writes.\<close>

lemma on_ofd_fprintf_pending:
  "\<exists>s. ofd os' = (ofd os)\<lparr>pending := pending (ofd os) @ s\<rparr>
     \<Longrightarrow> \<exists>s. ofd (on_ofd (fprintf x) os') = (ofd os)\<lparr>pending := pending (ofd os) @ s\<rparr>"
  by (auto simp: on_ofd_def fprintf_def)

lemma createSQLTable_cols:
  "\<exists>s. ofd (for_loop 1 n
              (\<lambda>i os.
                 let col = outColumns g (nat i);
                     os = on_ofd (fprintf (''    '' @ colname col @ [TAB] @ coltype col)) os
                 in if i < n then on_ofd (fprintf ('','' @ [NL])) os else os) os)
        = (ofd os)\<lparr>pending := pending (ofd os) @ s\<rparr>"
proof (rule for_loop_inv)
  show "\<exists>s. ofd os = (ofd os)\<lparr>pending := pending (ofd os) @ s\<rparr>"
    by (rule exI [of _ "[]"]) simp
qed (auto simp: Let_def intro!: on_ofd_fprintf_pending)

lemma dl_createSQLTable_drop:
  assumes "do_drop g \<noteq> 0"
  shows "\<exists>pre post. written (ofd (dl_createSQLTable g os))
           = pre @ ''DROP TABLE IF EXISTS '' @ str_or_null (tablename g) @ '' CASCADE;'' @ [NL]
                 @ ''CREATE TABLE IF NOT EXISTS '' @ str_or_null (tablename g) @ '' ('' @ [NL] @ post"
proof -
  define db where "db = (case dbname g of
                  Some d \<Rightarrow>
                    if format g = TAB_MYSQL
                    then on_ofd (fprintf (''USE '' @ d @ '';'' @ [NL]))
                           (on_ofd (fprintf (''CREATE DATABASE IF NOT EXISTS '' @ d @ '';'' @ [NL])) os)
                    else os
                | None \<Rightarrow> os)"
  define hd where "hd = on_ofd (fprintf (''CREATE TABLE IF NOT EXISTS '' @ str_or_null (tablename g)
                                  @ '' ('' @ [NL]))
                 (on_ofd (fprintf (''DROP TABLE IF EXISTS '' @ str_or_null (tablename g)
                                        @ '' CASCADE;'' @ [NL])) db)"
  obtain s where s: "ofd (for_loop 1 (numOutCols g)
              (\<lambda>i os.
                 let col = outColumns g (nat i);
                     os = on_ofd (fprintf (''    '' @ colname col @ [TAB] @ coltype col)) os
                 in if i < numOutCols g then on_ofd (fprintf ('','' @ [NL])) os else os) hd)
        = (ofd hd)\<lparr>pending := pending (ofd hd) @ s\<rparr>"
    using createSQLTable_cols by blast
  have "written (ofd (dl_createSQLTable g os))
          = (written (ofd db) @ pending (ofd db))
            @ ''DROP TABLE IF EXISTS '' @ str_or_null (tablename g) @ '' CASCADE;'' @ [NL]
            @ ''CREATE TABLE IF NOT EXISTS '' @ str_or_null (tablename g) @ '' ('' @ [NL]
            @ (s @ (if do_oids g \<noteq> 0 \<and> format g = TAB_POSTGRES
                    then [NL] @ '') WITH OIDS;'' @ [NL, NL] else [NL] @ '');'' @ [NL, NL]))"
    using assms s
    by (simp add: dl_createSQLTable_def db_def [symmetric] hd_def [symmetric] Let_def)
       (simp add: hd_def on_ofd_def fprintf_def fflush_def)
  then show ?thesis by blast
qed


text \<open>
  C10. With \<open>--drop\<close> and without \<open>--create\<close>, the prologue of an SQL format writes what it
  writes with \<open>--drop --create\<close>, and what it writes holds the \<open>DROP TABLE IF EXISTS\<close>
  statement followed by the head of the \<open>CREATE TABLE IF NOT EXISTS\<close> statement.
\<close>

theorem drop_alone_creates_table:
  assumes "TAB_DBTYPE (format g)" and "0 \<le> do_drop g" and "0 \<le> do_create g"
  shows "map_option (\<lambda>r. ofd (snd r))
           (Option.bind (main_opts [(CHR ''6'', v)] g) (\<lambda>g1. prologue g1 f iname n os))
         = map_option (\<lambda>r. ofd (snd r))
             (Option.bind (main_opts [(CHR ''6'', v), (CHR ''7'', w)] g) (\<lambda>g2. prologue g2 f iname n os))
       \<and> (\<forall>g1 g' os'. main_opts [(CHR ''6'', v)] g = Some g1 \<longrightarrow> prologue g1 f iname n os = Some (g', os')
             \<longrightarrow> (\<exists>pre post. written (ofd os')
                    = pre @ ''DROP TABLE IF EXISTS '' @ str_or_null (tablename g') @ '' CASCADE;'' @ [NL]
                          @ ''CREATE TABLE IF NOT EXISTS '' @ str_or_null (tablename g') @ '' ('' @ [NL]
                          @ post))"
proof -
  let ?g1 = "g\<lparr>do_drop := do_drop g + 1, do_create := do_create g + 1\<rparr>"
  have o1: "main_opts [(CHR ''6'', v)] g = Some ?g1"
    by (simp add: main_opt_def)
  have o2: "main_opts [(CHR ''6'', v), (CHR ''7'', w)] g = Some (?g1\<lparr>do_create := do_create g + 2\<rparr>)"
    by (simp add: main_opt_def)
  have nz: "do_create ?g1 \<noteq> 0" "do_create g + 2 \<noteq> 0" "do_drop ?g1 \<noteq> 0"
    using assms(2,3) by simp_all
  have "prologue (?g1\<lparr>do_create := do_create g + 2\<rparr>) f iname n os
              = map_option (\<lambda>r. ((fst r)\<lparr>do_create := do_create g + 2\<rparr>, snd r)) (prologue ?g1 f iname n os)"
    by (rule prologue_create [OF nz(2) nz(1)])
  then have eq: "prologue (g\<lparr>do_drop := do_drop g + 1, do_create := do_create g + 2\<rparr>) f iname n os
              = map_option (\<lambda>r. ((fst r)\<lparr>do_create := do_create g + 2\<rparr>, snd r)) (prologue ?g1 f iname n os)"
    by simp
  have part1: "map_option (\<lambda>r. ofd (snd r))
           (Option.bind (main_opts [(CHR ''6'', v)] g) (\<lambda>g1. prologue g1 f iname n os))
         = map_option (\<lambda>r. ofd (snd r))
             (Option.bind (main_opts [(CHR ''6'', v), (CHR ''7'', w)] g) (\<lambda>g2. prologue g2 f iname n os))"
    unfolding o1 o2 by (simp add: eq option.map_comp comp_def)
  have part2: "\<exists>pre post. written (ofd os')
                    = pre @ ''DROP TABLE IF EXISTS '' @ str_or_null (tablename g') @ '' CASCADE;'' @ [NL]
                          @ ''CREATE TABLE IF NOT EXISTS '' @ str_or_null (tablename g') @ '' ('' @ [NL]
                          @ post"
    if p: "prologue ?g1 f iname n os = Some (g', os')" for g' os'
  proof -
    from p obtain ga where ga: "dl_getColInfo ?g1 f 1 n = Some ga"
      by (auto simp: prologue_def split: option.splits)
    note fr = cols_only_fields [OF cols_only_getColInfo [OF ga]]
    from p ga obtain gb where gb: "(if tablename ga = None
                 then map_option (\<lambda>t. ga\<lparr>tablename := Some t\<rparr>) (dl_makeTableName iname)
                 else Some ga) = Some gb"
      by (auto simp: prologue_def split: option.splits)
    have fb: "format gb = format g" "do_create gb \<noteq> 0" "do_drop gb \<noteq> 0"
      using gb fr nz by (auto split: if_splits)
    define gc where "gc = (if do_binary gb \<noteq> 0
                              \<and> list_ex (\<lambda>c. type (inColumns gb (nat c)) \<noteq> TSTRING
                                             \<and> repeat (inColumns gb (nat c)) > 1) [1..n]
                           then gb\<lparr>do_binary := 0\<rparr> else gb)"
    have fc: "do_create gc \<noteq> 0" "do_drop gc \<noteq> 0" "tablename gc = tablename gb"
      using fb by (auto simp: gc_def)
    have res: "g' = gc" "written (ofd os') = written (ofd (dl_createSQLTable gc os))"
      using p ga gb assms(1) fb fc
      by (auto simp: prologue_def TAB_DBTYPE_def gc_def [symmetric] Let_def on_ofd_def fprintf_def
               split: if_splits)
    show ?thesis
      unfolding res using dl_createSQLTable_drop [OF fc(2), of os] by simp
  qed
  show ?thesis
  proof (intro conjI allI impI)
    show "map_option (\<lambda>r. ofd (snd r))
           (Option.bind (main_opts [(CHR ''6'', v)] g) (\<lambda>g1. prologue g1 f iname n os))
         = map_option (\<lambda>r. ofd (snd r))
             (Option.bind (main_opts [(CHR ''6'', v), (CHR ''7'', w)] g) (\<lambda>g2. prologue g2 f iname n os))"
      by (rule part1)
  next
    fix g1 g' os'
    assume a: "main_opts [(CHR ''6'', v)] g = Some g1" and p: "prologue g1 f iname n os = Some (g', os')"
    from a have "g1 = ?g1" unfolding o1 by simp
    with p show "\<exists>pre post. written (ofd os')
                    = pre @ ''DROP TABLE IF EXISTS '' @ str_or_null (tablename g') @ '' CASCADE;'' @ [NL]
                          @ ''CREATE TABLE IF NOT EXISTS '' @ str_or_null (tablename g') @ '' ('' @ [NL]
                          @ post"
      using part2 by blast
  qed
qed

text \<open>
  An instance: a table with an INT column and a column of 8 bits, a type the switch of
  \<open>dl_SQLType\<close> does not name, so that the column gets the label of the INT column
  before it. The prologue writes both statements; so does the run over the table with
  the INT column alone, with and without \<open>--create\<close>.
\<close>

theorem drop_alone_creates_table_witness:
  "TAB_DBTYPE (format (host_le\<lparr>format := TAB_POSTGRES\<rparr>))
   \<and> 0 \<le> do_drop (host_le\<lparr>format := TAB_POSTGRES\<rparr>)
   \<and> 0 \<le> do_create (host_le\<lparr>format := TAB_POSTGRES\<rparr>)
   \<and> (\<exists>g1 g' os' pre post.
         main_opts [(CHR ''6'', [])] (host_le\<lparr>format := TAB_POSTGRES\<rparr>) = Some g1
         \<and> prologue g1 int_then_bit ''t.fits'' 2 ostate_init = Some (g', os')
         \<and> tablename g' = Some ''t''
         \<and> written (ofd os')
             = pre @ ''DROP TABLE IF EXISTS t CASCADE;'' @ [NL]
                   @ ''CREATE TABLE IF NOT EXISTS t ('' @ [NL] @ post
         \<and> written (ofd os')
             = ''DROP TABLE IF EXISTS t CASCADE;'' @ [NL]
               @ ''CREATE TABLE IF NOT EXISTS t ('' @ [NL]
               @ ''    COL'' @ [TAB] @ ''integer,'' @ [NL]
               @ ''    B'' @ [TAB] @ ''integer[8]'' @ [NL] @ '');'' @ [NL, NL])
   \<and> run_output [(CHR ''5'', ''postgres''), (CHR ''6'', [])] [to_stdout int123] host_le
       = Some (''DROP TABLE IF EXISTS t CASCADE;'' @ [NL]
               @ ''CREATE TABLE IF NOT EXISTS t ('' @ [NL]
               @ ''    COL'' @ [TAB] @ ''integer'' @ [NL] @ '');'' @ [NL, NL, NL]
               @ ''COPY t (COL) from stdin;'' @ [NL]
               @ ''16777216'' @ [NL] @ ''33554432'' @ [NL] @ ''50331648'' @ [NL])
   \<and> run_output [(CHR ''5'', ''postgres''), (CHR ''6'', []), (CHR ''7'', [])] [to_stdout int123] host_le
       = run_output [(CHR ''5'', ''postgres''), (CHR ''6'', [])] [to_stdout int123] host_le"
proof -
  let ?g = "host_le\<lparr>format := TAB_POSTGRES\<rparr>"
  have h: "TAB_DBTYPE (format ?g)" "0 \<le> do_drop ?g" "0 \<le> do_create ?g"
    by code_simp+
  obtain g1 where g1: "main_opts [(CHR ''6'', [])] ?g = Some g1"
    by (simp add: main_opt_def)
  have ev: "map_option (\<lambda>r. (tablename (fst r), written (ofd (snd r))))
              (Option.bind (main_opts [(CHR ''6'', [])] ?g)
                 (\<lambda>g1. prologue g1 int_then_bit ''t.fits'' 2 ostate_init))
            = Some (Some ''t'',
                    ''DROP TABLE IF EXISTS t CASCADE;'' @ [NL]
                    @ ''CREATE TABLE IF NOT EXISTS t ('' @ [NL]
                    @ ''    COL'' @ [TAB] @ ''integer,'' @ [NL]
                    @ ''    B'' @ [TAB] @ ''integer[8]'' @ [NL] @ '');'' @ [NL, NL])"
    by code_simp
  with g1 obtain g' os' where p: "prologue g1 int_then_bit ''t.fits'' 2 ostate_init = Some (g', os')"
    and t: "tablename g' = Some ''t''"
    and w: "written (ofd os')
             = ''DROP TABLE IF EXISTS t CASCADE;'' @ [NL]
               @ ''CREATE TABLE IF NOT EXISTS t ('' @ [NL]
               @ ''    COL'' @ [TAB] @ ''integer,'' @ [NL]
               @ ''    B'' @ [TAB] @ ''integer[8]'' @ [NL] @ '');'' @ [NL, NL]"
    by auto
  from drop_alone_creates_table [OF h, of "[]" int_then_bit "''t.fits''" 2 ostate_init "[]"] g1 p
  obtain pre post where "written (ofd os')
      = pre @ ''DROP TABLE IF EXISTS '' @ str_or_null (tablename g') @ '' CASCADE;'' @ [NL]
            @ ''CREATE TABLE IF NOT EXISTS '' @ str_or_null (tablename g') @ '' ('' @ [NL] @ post"
    by blast
  then have e: "written (ofd os')
      = pre @ ''DROP TABLE IF EXISTS t CASCADE;'' @ [NL]
            @ ''CREATE TABLE IF NOT EXISTS t ('' @ [NL] @ post"
    by (simp add: t str_or_null_def)
  have r1: "run_output [(CHR ''5'', ''postgres''), (CHR ''6'', [])] [to_stdout int123] host_le
       = Some (''DROP TABLE IF EXISTS t CASCADE;'' @ [NL]
               @ ''CREATE TABLE IF NOT EXISTS t ('' @ [NL]
               @ ''    COL'' @ [TAB] @ ''integer'' @ [NL] @ '');'' @ [NL, NL, NL]
               @ ''COPY t (COL) from stdin;'' @ [NL]
               @ ''16777216'' @ [NL] @ ''33554432'' @ [NL] @ ''50331648'' @ [NL])"
    by code_simp
  have r2: "run_output [(CHR ''5'', ''postgres''), (CHR ''6'', []), (CHR ''7'', [])] [to_stdout int123] host_le
       = Some (''DROP TABLE IF EXISTS t CASCADE;'' @ [NL]
               @ ''CREATE TABLE IF NOT EXISTS t ('' @ [NL]
               @ ''    COL'' @ [TAB] @ ''integer'' @ [NL] @ '');'' @ [NL, NL, NL]
               @ ''COPY t (COL) from stdin;'' @ [NL]
               @ ''16777216'' @ [NL] @ ''33554432'' @ [NL] @ ''50331648'' @ [NL])"
    by code_simp
  from h g1 p t e w r1 r2 show ?thesis by (intro conjI exI) (assumption | simp only:)+
qed

end
